theory Spec2Isabelle
  imports Complex_Main "HOL-Library.Word" "HOL-Library.Signed_Division" "HOL-Library.Log_Nat"
    "HOL-Library.AList"
begin

unbundle bit_operations_syntax

chapter \<open>Stang: the parser's precedence table and the tree-walking evaluator\<close>

text \<open>
  A shallow embedding of the Go sources \<^verbatim>\<open>parser/parser.go\<close>, \<^verbatim>\<open>ast\<close>
  (the node types), \<^verbatim>\<open>evaluator/object.go\<close>, \<^verbatim>\<open>evaluator/scope.go\<close>,
  \<^verbatim>\<open>evaluator/errors.go\<close>, \<^verbatim>\<open>evaluator/builtins.go\<close> and
  \<^verbatim>\<open>evaluator/evaluator.go\<close>.

  Every Go \<^verbatim>\<open>Object\<close> is a pointer to a struct, and the evaluator mutates those structs in
  place (\<^verbatim>\<open>r.Value++\<close>, \<^verbatim>\<open>objects[idx] = newValue\<close>), so objects live in an explicit
  heap and an \<^verbatim>\<open>Object\<close> is a reference into it or \<^verbatim>\<open>nil\<close>. Slices are headers over
  backing arrays kept in a second store, which is what makes the sharing between an array and
  its slices observable. A Go panic (nil dereference, index out of range) is the result
  \<open>Panic\<close>; recursion is bounded by fuel and running out of it is the result \<open>OutOfFuel\<close>.
\<close>

section \<open>Go's machine types\<close>

type_synonym int64 = "64 word"
type_synonym uint64 = "64 word"

text \<open>
  \<^verbatim>\<open>int\<close> is 64 bits wide on the platforms the interpreter is built for; lengths and indices
  are read as mathematical integers through \<open>sint\<close>. Integer division truncates towards zero
  and wraps at the one overflowing quotient, as Go's \<^verbatim>\<open>/\<close> on \<^verbatim>\<open>int64\<close> does; the caller
  excludes a zero divisor (Go panics there).
\<close>

definition int64_div :: "int64 \<Rightarrow> int64 \<Rightarrow> int64" where
  "int64_div a b = word_of_int (sint a sdiv sint b)"

subsection \<open>float64\<close>

text \<open>
  IEEE 754 binary64 with round-to-nearest-even: a finite value is the rational it denotes
  (\<open>Num 0\<close> is \<open>+0\<close>), and every arithmetic result is the exact rational result rounded by
  \<open>round64\<close>.
\<close>

datatype float64 = Num rat | NegZero | PInf | NInf | NaN

definition pow2 :: "int \<Rightarrow> rat" where
  "pow2 k = (if 0 \<le> k then 2 ^ nat k else 1 / 2 ^ nat (- k))"

definition rne :: "rat \<Rightarrow> int" where
  "rne x = (let f = \<lfloor>x\<rfloor>; d = x - of_int f in
     if d < 1 / 2 then f else if 1 / 2 < d then f + 1 else if even f then f else f + 1)"

definition ilog2 :: "rat \<Rightarrow> int" where
  "ilog2 a = (let n = fst (quotient_of a); d = snd (quotient_of a);
                  k = int (floorlog 2 (nat n)) - int (floorlog 2 (nat d))
              in if pow2 k \<le> a then k else k - 1)"

definition round64 :: "rat \<Rightarrow> float64" where
  "round64 q = (if q = 0 then Num 0 else
     let a = \<bar>q\<bar>; u = pow2 (max (ilog2 a - 52) (- 1074)); r = of_int (rne (a / u)) * u
     in if pow2 1024 \<le> r then (if q < 0 then NInf else PInf)
        else if r = 0 then (if q < 0 then NegZero else Num 0)
        else Num (if q < 0 then - r else r))"

fun f_isneg :: "float64 \<Rightarrow> bool" where
  "f_isneg (Num q) = (q < 0)"
| "f_isneg NegZero = True"
| "f_isneg NInf = True"
| "f_isneg PInf = False"
| "f_isneg NaN = False"

fun f_iszero :: "float64 \<Rightarrow> bool" where
  "f_iszero (Num q) = (q = 0)"
| "f_iszero NegZero = True"
| "f_iszero _ = False"

fun f_isinf :: "float64 \<Rightarrow> bool" where
  "f_isinf PInf = True"
| "f_isinf NInf = True"
| "f_isinf _ = False"

fun f_rat :: "float64 \<Rightarrow> rat" where
  "f_rat (Num q) = q"
| "f_rat _ = 0"

definition f_zero :: "bool \<Rightarrow> float64" where
  "f_zero neg = (if neg then NegZero else Num 0)"

definition f_inf :: "bool \<Rightarrow> float64" where
  "f_inf neg = (if neg then NInf else PInf)"

fun f_neg :: "float64 \<Rightarrow> float64" where
  "f_neg (Num q) = (if q = 0 then NegZero else Num (- q))"
| "f_neg NegZero = Num 0"
| "f_neg PInf = NInf"
| "f_neg NInf = PInf"
| "f_neg NaN = NaN"

fun f_add :: "float64 \<Rightarrow> float64 \<Rightarrow> float64" where
  "f_add NaN _ = NaN"
| "f_add _ NaN = NaN"
| "f_add PInf NInf = NaN"
| "f_add NInf PInf = NaN"
| "f_add PInf _ = PInf"
| "f_add _ PInf = PInf"
| "f_add NInf _ = NInf"
| "f_add _ NInf = NInf"
| "f_add NegZero NegZero = NegZero"
| "f_add NegZero (Num q) = Num q"
| "f_add (Num p) NegZero = Num p"
| "f_add (Num p) (Num q) = round64 (p + q)"

definition f_sub :: "float64 \<Rightarrow> float64 \<Rightarrow> float64" where
  "f_sub a b = f_add a (f_neg b)"

definition f_mul :: "float64 \<Rightarrow> float64 \<Rightarrow> float64" where
  "f_mul a b = (let neg = (f_isneg a \<noteq> f_isneg b) in
     if a = NaN \<or> b = NaN then NaN
     else if f_isinf a \<or> f_isinf b then (if f_iszero a \<or> f_iszero b then NaN else f_inf neg)
     else if f_iszero a \<or> f_iszero b then f_zero neg
     else round64 (f_rat a * f_rat b))"

definition f_div :: "float64 \<Rightarrow> float64 \<Rightarrow> float64" where
  "f_div a b = (let neg = (f_isneg a \<noteq> f_isneg b) in
     if a = NaN \<or> b = NaN then NaN
     else if f_isinf a then (if f_isinf b then NaN else f_inf neg)
     else if f_isinf b then f_zero neg
     else if f_iszero b then (if f_iszero a then NaN else f_inf neg)
     else if f_iszero a then f_zero neg
     else round64 (f_rat a / f_rat b))"

text \<open>\<^verbatim>\<open>math.Mod(x, y)\<close>: the remainder of the truncated division, with the sign of \<open>x\<close>.\<close>

definition math_Mod :: "float64 \<Rightarrow> float64 \<Rightarrow> float64" where
  "math_Mod x y = (
     if x = NaN \<or> y = NaN \<or> f_isinf x \<or> f_iszero y then NaN
     else if f_isinf y \<or> f_iszero x then x
     else let q = f_rat x / f_rat y;
              t = (if q < 0 then - \<lfloor>- q\<rfloor> else \<lfloor>q\<rfloor>);
              r = f_rat x - of_int t * f_rat y
          in if r = 0 then f_zero (f_isneg x) else Num r)"

definition f_eq :: "float64 \<Rightarrow> float64 \<Rightarrow> bool" where
  "f_eq a b = (if a = NaN \<or> b = NaN then False
     else if f_isinf a \<or> f_isinf b then a = b
     else f_rat a = f_rat b)"

definition f_lt :: "float64 \<Rightarrow> float64 \<Rightarrow> bool" where
  "f_lt a b = (if a = NaN \<or> b = NaN then False
     else if a = PInf \<or> b = NInf then False
     else if a = NInf \<or> b = PInf then True
     else f_rat a < f_rat b)"

definition f_le :: "float64 \<Rightarrow> float64 \<Rightarrow> bool" where
  "f_le a b = (f_lt a b \<or> f_eq a b)"

text \<open>The conversion \<^verbatim>\<open>float64(i)\<close> of an \<^verbatim>\<open>int64\<close>.\<close>

definition float64_of_int64 :: "int64 \<Rightarrow> float64" where
  "float64_of_int64 i = round64 (of_int (sint i))"

text \<open>
  The conversion \<^verbatim>\<open>int64(f)\<close> truncates towards zero. Where the truncated value does not
  fit (and for NaN and the infinities) Go leaves the result to the implementation; the amd64
  instruction yields the smallest \<^verbatim>\<open>int64\<close>, which is what is written here.
\<close>

definition int64_of_float64 :: "float64 \<Rightarrow> int64" where
  "int64_of_float64 f = (case f of
       Num q \<Rightarrow> (let t = (if q < 0 then - \<lfloor>- q\<rfloor> else \<lfloor>q\<rfloor>) in
                  if - (2 ^ 63) \<le> t \<and> t < 2 ^ 63 then word_of_int t else word_of_int (- (2 ^ 63)))
     | NegZero \<Rightarrow> 0
     | _ \<Rightarrow> word_of_int (- (2 ^ 63)))"


section \<open>Strings and formatting\<close>

text \<open>
  A Go string is a sequence of bytes, which is what \<open>string\<close> is. \<open>itoa\<close> is the decimal
  form that \<^verbatim>\<open>%d\<close> prints.
\<close>

fun digits :: "nat \<Rightarrow> string" where
  "digits n = (if n < 10 then [''0123456789'' ! n]
               else digits (n div 10) @ [''0123456789'' ! (n mod 10)])"

declare digits.simps [simp del]

definition itoa :: "int \<Rightarrow> string" where
  "itoa i = (if i < 0 then CHR ''-'' # digits (nat (- i)) else digits (nat i))"

fun Join :: "string list \<Rightarrow> string \<Rightarrow> string" where
  "Join [] sep = []"
| "Join [x] sep = x"
| "Join (x # y # ys) sep = x @ sep @ Join (y # ys) sep"

text \<open>
  \<^verbatim>\<open>fmt.Sprintf\<close> for the two verbs the sources use, \<^verbatim>\<open>%s\<close> and \<^verbatim>\<open>%d\<close>. Every call site
  passes a string where the format has \<^verbatim>\<open>%s\<close> and an integer where it has \<^verbatim>\<open>%d\<close>, so an
  operand is printed by its own kind.
\<close>

datatype fmtarg = S string | D int

fun fmt_operand :: "fmtarg \<Rightarrow> string" where
  "fmt_operand (S s) = s"
| "fmt_operand (D i) = itoa i"

fun Sprintf :: "string \<Rightarrow> fmtarg list \<Rightarrow> string" where
  "Sprintf [] args = []"
| "Sprintf [c] args = [c]"
| "Sprintf (c # v # fs) args =
     (if c = CHR ''%'' then
        (case args of
           [] \<Rightarrow> ''%!'' @ [v] @ ''(MISSING)'' @ Sprintf fs []
         | a # as \<Rightarrow> fmt_operand a @ Sprintf fs as)
      else c # Sprintf (v # fs) args)"

text \<open>\<^verbatim>\<open>strconv.Atoi\<close>: an optional sign and decimal digits that fit an \<^verbatim>\<open>int\<close>.\<close>

definition is_digit :: "char \<Rightarrow> bool" where
  "is_digit c = (48 \<le> (of_char c :: nat) \<and> (of_char c :: nat) \<le> 57)"

definition digits_val :: "string \<Rightarrow> nat" where
  "digits_val s = foldl (\<lambda>acc c. 10 * acc + (of_char c - 48)) 0 s"

definition Atoi :: "string \<Rightarrow> int option" where
  "Atoi s = (let neg = (s \<noteq> [] \<and> hd s = CHR ''-'');
                 ds = (if s \<noteq> [] \<and> (hd s = CHR ''-'' \<or> hd s = CHR ''+'') then tl s else s);
                 v = (if neg then - int (digits_val ds) else int (digits_val ds))
             in if ds = [] \<or> \<not> list_all is_digit ds then None
                else if v < - (2 ^ 63) \<or> 2 ^ 63 \<le> v then None
                else Some v)"

text \<open>\<^verbatim>\<open>hash/fnv\<close>'s 64-bit FNV-1a, as \<^verbatim>\<open>New64a\<close>, \<^verbatim>\<open>Write\<close> and \<^verbatim>\<open>Sum64\<close> compute it.\<close>

definition fnv64a :: "string \<Rightarrow> uint64" where
  "fnv64a s = foldl (\<lambda>h c. (h XOR of_char c) * 1099511628211) 14695981039346656037 s"

text \<open>\<^verbatim>\<open>strings.Split(s, sep)\<close> for a separator that is not empty.\<close>

function split_on :: "string \<Rightarrow> string \<Rightarrow> string \<Rightarrow> string list" where
  "split_on sep cur [] = [cur]"
| "split_on sep cur (c # cs) =
     (if sep \<noteq> [] \<and> take (length sep) (c # cs) = sep
      then cur # split_on sep [] (drop (length sep) (c # cs))
      else split_on sep (cur @ [c]) cs)"
  by pat_completeness auto
termination
  by (relation "measure (\<lambda>(sep, cur, s). length s)") auto

text \<open>The conversion \<^verbatim>\<open>string(b)\<close> of a byte: the UTF-8 encoding of the code point \<open>b\<close>.\<close>

definition string_of_byte :: "char \<Rightarrow> string" where
  "string_of_byte c = (let b = (of_char c :: nat) in
     if b < 128 then [c] else [char_of (192 + b div 64), char_of (128 + b mod 64)])"

subsection \<open>What the Go runtime and library supply\<close>

text \<open>
  The library functions whose results the evaluator only passes on, and the growth rule of
  \<^verbatim>\<open>append\<close>, are parameters of the model: \<^verbatim>\<open>strconv.FormatFloat(f, 'f', -1, 64)\<close>,
  \<^verbatim>\<open>strconv.ParseFloat(s, 64)\<close>, \<^verbatim>\<open>strings.ToLower\<close>, \<^verbatim>\<open>strings.ToUpper\<close>, the split of a
  string into its UTF-8 sequences (\<^verbatim>\<open>strings.Split\<close> with an empty separator), the formatted
  reading of the clock at a given moment of the run, and the capacity \<^verbatim>\<open>append\<close> chooses
  when a slice of a given capacity must grow to hold a given length.
\<close>

record runtime =
  FormatFloat :: "float64 \<Rightarrow> string"
  ParseFloat :: "string \<Rightarrow> float64 option"
  ToLower :: "string \<Rightarrow> string"
  ToUpper :: "string \<Rightarrow> string"
  explode :: "string \<Rightarrow> string list"
  Now :: "nat \<Rightarrow> string"
  growslice :: "nat \<Rightarrow> nat \<Rightarrow> nat"

definition Split :: "runtime \<Rightarrow> string \<Rightarrow> string \<Rightarrow> string list" where
  "Split rt s sep = (if sep = [] then explode rt s else split_on sep [] s)"

text \<open>
  A small runtime for closed runs. It is not the Go library, and it gives the library's result
  only on a part of the inputs: the case mappings and \<open>explode\<close> on ASCII strings,
  \<open>FormatFloat\<close> on the specials and on integral values up to \<open>2 ^ 53\<close> in magnitude
  (any other value is printed as a fraction \<open>n/d\<close>, which Go never prints), \<open>ParseFloat\<close> on
  decimal integer numerals that fit an \<^verbatim>\<open>int64\<close> (it refuses fractions, exponents and the
  named specials, which Go reads), \<open>growslice\<close> as long as Go doubles without rounding the
  capacity up to a size class. \<open>Now\<close> is a constant. The properties below that are stated
  for a runtime \<open>rt\<close> hold for every runtime, the Go library's included.
\<close>

definition ascii_lower :: "char \<Rightarrow> char" where
  "ascii_lower c = (let b = (of_char c :: nat) in if 65 \<le> b \<and> b \<le> 90 then char_of (b + 32) else c)"

definition ascii_upper :: "char \<Rightarrow> char" where
  "ascii_upper c = (let b = (of_char c :: nat) in if 97 \<le> b \<and> b \<le> 122 then char_of (b - 32) else c)"

definition plain_float :: "float64 \<Rightarrow> string" where
  "plain_float f = (case f of
       Num q \<Rightarrow> (let n = fst (quotient_of q); d = snd (quotient_of q) in
                  if d = 1 then itoa n else itoa n @ ''/'' @ itoa d)
     | NegZero \<Rightarrow> ''-0'' | PInf \<Rightarrow> ''+Inf'' | NInf \<Rightarrow> ''-Inf'' | NaN \<Rightarrow> ''NaN'')"

definition go_runtime :: runtime where
  "go_runtime = \<lparr> FormatFloat = plain_float,
                   ParseFloat = (\<lambda>s. map_option (\<lambda>i. round64 (of_int i)) (Atoi s)),
                   ToLower = map ascii_lower,
                   ToUpper = map ascii_upper,
                   explode = map (\<lambda>c. [c]),
                   Now = (\<lambda>t. ''2022-03-30 04:35:06''),
                   growslice = (\<lambda>old need. max need (2 * old)) \<rparr>"


section \<open>The syntax tree (package ast)\<close>

text \<open>
  One constructor per node type. A field of interface type (\<^verbatim>\<open>Expression\<close>, \<^verbatim>\<open>Statement\<close>,
  \<^verbatim>\<open>Node\<close>) that is \<^verbatim>\<open>nil\<close> holds \<open>NilNode\<close>; the parser leaves such fields behind when
  it recovers from an error. A field of type \<^verbatim>\<open>*BlockStatement\<close> is the block's statement
  list or \<open>None\<close> for the nil pointer, and \<^verbatim>\<open>*Identifier\<close> is the identifier's name or
  \<open>None\<close>; \<open>NilBlockStatement\<close> is such a nil pointer seen as a \<^verbatim>\<open>Node\<close>. The leading
  string of a constructor, where there is one, is the node's
  \<^verbatim>\<open>Token.Literal\<close>. The pairs of a hash literal are listed in the order in which the Go
  runtime iterates over the map.
\<close>

datatype node =
    NilNode
  | NilBlockStatement
  | Program "node list"
  | LetStatement string "string option" node
  | DeleteStatement node
  | ReturnStatement string node
  | ExpressionStatement node
  | BlockStatement "node list"
  | Identifier string
  | IntegerLiteral string int64
  | FloatLiteral string float64
  | BooleanLiteral string bool
  | StringLiteral string string
  | NullExpression
  | ArrayLiteral "node list"
  | HashLiteral "(node \<times> node) list"
  | FunctionLiteral string "string list" "node list option"
  | PrefixExpression string node
  | InfixExpression node string node
  | PostfixExpression node string
  | IfExpression node "node list option" "node list option"
  | WhileExpression string node "node list option"
  | ForExpression node node node "node list option"
  | BreakExpression string
  | ContinueExpression string
  | TypeofExpression node
  | AssignExpression string node node
  | CallExpression node "node list"
  | MethodCallExpression node node
  | IndexExpression node node
  | SliceExpression node node

text \<open>
  The \<^verbatim>\<open>String()\<close> methods. A call on a nil interface or through a nil pointer panics, which is
  \<open>None\<close>.
\<close>

definition cat2 :: "string option \<Rightarrow> string option \<Rightarrow> string option" where
  "cat2 a b = (case a of None \<Rightarrow> None | Some x \<Rightarrow> (case b of None \<Rightarrow> None | Some y \<Rightarrow> Some (x @ y)))"

definition if_present :: "node \<Rightarrow> string option \<Rightarrow> string option" where
  "if_present n s = (if n = NilNode then Some [] else s)"

fun node_String :: "node \<Rightarrow> string option" where
  "node_String NilNode = None"
| "node_String NilBlockStatement = None"
| "node_String (Program stmts) = map_option concat (those (map node_String stmts))"
| "node_String (LetStatement tok name v) =
     (case name of None \<Rightarrow> None
      | Some x \<Rightarrow> cat2 (Some (tok @ '' '' @ x @ '' = '')) (if_present v (node_String v)))"
| "node_String (DeleteStatement v) = cat2 (Some ''delete '') (node_String v)"
| "node_String (ReturnStatement tok v) = cat2 (Some (tok @ '' '')) (if_present v (node_String v))"
| "node_String (ExpressionStatement e) = if_present e (node_String e)"
| "node_String (BlockStatement stmts) =
     map_option (\<lambda>ss. concat (map (\<lambda>x. x @ ''; '') ss))
       (those (map snd (filter (\<lambda>p. fst p \<noteq> ExpressionStatement NilNode)
                          (zip stmts (map node_String stmts)))))"
| "node_String (Identifier x) = Some x"
| "node_String (IntegerLiteral tok v) = Some tok"
| "node_String (FloatLiteral tok v) = Some tok"
| "node_String (BooleanLiteral tok v) = Some tok"
| "node_String (StringLiteral tok v) = Some tok"
| "node_String NullExpression = Some ''null''"
| "node_String (ArrayLiteral es) =
     map_option (\<lambda>ss. ''['' @ Join ss '', '' @ '']'') (those (map node_String es))"
| "node_String (HashLiteral ps) =
     map_option (\<lambda>ss. ''{'' @ Join ss '', '' @ ''}'')
       (those (map (\<lambda>p. cat2 (cat2 (node_String (fst p)) (Some '':'')) (node_String (snd p))) ps))"
| "node_String (FunctionLiteral tok params body) =
     (case body of None \<Rightarrow> None
      | Some stmts \<Rightarrow> cat2 (Some (tok @ ''('' @ Join params '','' @ '')''))
                        (node_String (BlockStatement stmts)))"
| "node_String (PrefixExpression op r) =
     cat2 (cat2 (Some (''('' @ op)) (node_String r)) (Some '')'')"
| "node_String (InfixExpression l op r) =
     cat2 (cat2 (cat2 (Some ''('') (node_String l)) (Some ('' '' @ op @ '' ''))) 
          (cat2 (node_String r) (Some '')''))"
| "node_String (PostfixExpression l op) =
     cat2 (cat2 (Some ''('') (node_String l)) (Some (op @ '')''))"
| "node_String (IfExpression c cons alt) =
     cat2 (cat2 (cat2 (Some ''if'') (node_String c)) (Some '' ''))
       (cat2 (case cons of None \<Rightarrow> None | Some stmts \<Rightarrow> node_String (BlockStatement stmts))
             (case alt of None \<Rightarrow> Some []
              | Some stmts \<Rightarrow> cat2 (Some ''else '') (node_String (BlockStatement stmts))))"
| "node_String (WhileExpression tok c body) =
     cat2 (cat2 (cat2 (Some (tok @ '' ( '')) (if_present c (node_String c))) (Some ('' )'' @ '' { '')))
       (cat2 (case body of None \<Rightarrow> Some [] | Some stmts \<Rightarrow> node_String (BlockStatement stmts))
             (Some '' }''))"
| "node_String (ForExpression init c upd body) =
     cat2 (cat2 (cat2 (Some (''for'' @ '' ( '')) (if_present init (node_String init)))
                (cat2 (Some '' ; '') (if_present c (node_String c))))
          (cat2 (cat2 (Some '' ; '') (if_present upd (node_String upd)))
                (cat2 (Some ('' ) '' @ '' { ''))
                      (cat2 (case body of None \<Rightarrow> Some []
                             | Some stmts \<Rightarrow> node_String (BlockStatement stmts))
                            (Some '' }''))))"
| "node_String (BreakExpression tok) = Some tok"
| "node_String (ContinueExpression tok) = Some tok"
| "node_String (TypeofExpression e) = cat2 (Some ''typeof'') (node_String e)"
| "node_String (AssignExpression tok name v) =
     cat2 (cat2 (node_String name) (Some tok)) (node_String v)"
| "node_String (CallExpression f args) =
     cat2 (node_String f)
       (map_option (\<lambda>ss. ''('' @ Join ss '', '' @ '')'') (those (map node_String args)))"
| "node_String (MethodCallExpression obj call) =
     cat2 (cat2 (node_String obj) (Some ''.'')) (node_String call)"
| "node_String (IndexExpression l i) =
     cat2 (cat2 (cat2 (Some ''('') (node_String l)) (Some ''[''))
          (cat2 (node_String i) (Some ('']'' @ '')'')))"
| "node_String (SliceExpression a b) =
     cat2 (cat2 (cat2 (Some ''('') (node_String a)) (Some '':''))
          (cat2 (node_String b) (Some '')''))"


section \<open>Objects, the heap and the scopes (object.go, scope.go, errors.go)\<close>

datatype ObjectType =
    IntegerObj | FloatObj | BooleanObj | NullObj | ReturnValueObj | BreakObj | ContinueObj
  | ErrorObj | FunctionObj | StringObj | BuiltinObj | ArrayObj | HashObj

fun type_name :: "ObjectType \<Rightarrow> string" where
  "type_name IntegerObj = ''INTEGER''"
| "type_name FloatObj = ''FLOAT''"
| "type_name BooleanObj = ''BOOLEAN''"
| "type_name NullObj = ''NULL''"
| "type_name ReturnValueObj = ''RETURN_VALUE''"
| "type_name BreakObj = ''BREAK''"
| "type_name ContinueObj = ''CONTINUE''"
| "type_name ErrorObj = ''ERROR''"
| "type_name FunctionObj = ''FUNCTION''"
| "type_name StringObj = ''STRING''"
| "type_name BuiltinObj = ''BUILTIN''"
| "type_name ArrayObj = ''ARRAY''"
| "type_name HashObj = ''HASH''"

text \<open>
  An \<^verbatim>\<open>Object\<close> is an interface value: \<^verbatim>\<open>nil\<close> or a pointer to one of the structs below.
  A slice is its header: the backing array, the offset of its first element, its length and
  its capacity.
\<close>

type_synonym ref = nat
type_synonym Object = "ref option"

datatype slice = Slice (s_arr: nat) (s_off: nat) (s_len: nat) (s_cap: nat)

datatype HashKey = HashKey ObjectType uint64

datatype HashPair = HashPair (Key: Object) (Val: Object)

datatype builtin_fn = B_len | B_number | B_string | B_int | B_now | B_print

datatype object =
    Integer int64
  | Float float64
  | Boolean bool
  | Null
  | Error string
  | Break
  | Continue
  | ReturnValue Object
  | String string
  | Function "string list" "node list option" nat
  | Builtin builtin_fn
  | Array slice
  | Hash "(HashKey \<times> HashPair) list"

fun object_Type :: "object \<Rightarrow> ObjectType" where
  "object_Type (Integer _) = IntegerObj"
| "object_Type (Float _) = FloatObj"
| "object_Type (Boolean _) = BooleanObj"
| "object_Type Null = NullObj"
| "object_Type (Error _) = ErrorObj"
| "object_Type Break = BreakObj"
| "object_Type Continue = ContinueObj"
| "object_Type (ReturnValue _) = ReturnValueObj"
| "object_Type (String _) = StringObj"
| "object_Type (Function _ _ _) = FunctionObj"
| "object_Type (Builtin _) = BuiltinObj"
| "object_Type (Array _) = ArrayObj"
| "object_Type (Hash _) = HashObj"

datatype scope = Scope (store: "(string \<times> Object) list") (parentScope: "nat option")

text \<open>
  The state of a run: the heap of objects, the backing arrays of the slices, the scope
  frames, what \<^verbatim>\<open>print\<close> has written, and the number of times \<^verbatim>\<open>Eval\<close> has looked at
  its context so far.
\<close>

record state =
  heap :: "object list"
  arrays :: "Object list list"
  scopes :: "scope list"
  stdout :: "string list"
  polls :: nat

text \<open>
  The results of a computation: it runs out of fuel, it panics, or it returns. A function
  that changes the state returns the new state with its result.
\<close>

datatype 'a res = OutOfFuel | Panic | Ok 'a

definition bnd :: "('a \<times> state) res \<Rightarrow> ('a \<Rightarrow> state \<Rightarrow> 'b res) \<Rightarrow> 'b res" where
  "bnd m f = (case m of OutOfFuel \<Rightarrow> OutOfFuel | Panic \<Rightarrow> Panic | Ok p \<Rightarrow> f (fst p) (snd p))"

definition pure_bnd :: "'a res \<Rightarrow> ('a \<Rightarrow> 'b res) \<Rightarrow> 'b res" where
  "pure_bnd m f = (case m of OutOfFuel \<Rightarrow> OutOfFuel | Panic \<Rightarrow> Panic | Ok a \<Rightarrow> f a)"

definition or_panic :: "'a option \<Rightarrow> ('a \<Rightarrow> 'b res) \<Rightarrow> 'b res" where
  "or_panic m f = (case m of None \<Rightarrow> Panic | Some a \<Rightarrow> f a)"

fun res_list :: "'a res list \<Rightarrow> 'a list res" where
  "res_list [] = Ok []"
| "res_list (r # rs) = pure_bnd r (\<lambda>x. pure_bnd (res_list rs) (\<lambda>xs. Ok (x # xs)))"

subsection \<open>The singletons and the builtin table\<close>

definition NULL :: Object where "NULL = Some 0"
definition BREAK :: Object where "BREAK = Some 1"
definition CONTINUE :: Object where "CONTINUE = Some 2"
definition TRUE :: Object where "TRUE = Some 3"
definition FALSE :: Object where "FALSE = Some 4"

definition builtins :: "(string \<times> Object) list" where
  "builtins = [(''len'', Some 5), (''number'', Some 6), (''string'', Some 7), (''int'', Some 8),
               (''now'', Some 9), (''print'', Some 10)]"

definition init_state :: state where
  "init_state = \<lparr> heap = [Null, Break, Continue, Boolean True, Boolean False,
                            Builtin B_len, Builtin B_number, Builtin B_string, Builtin B_int,
                            Builtin B_now, Builtin B_print],
                    arrays = [], scopes = [], stdout = [], polls = 0 \<rparr>"

definition nativeBoolToBooleanObject :: "bool \<Rightarrow> Object" where
  "nativeBoolToBooleanObject b = (if b then TRUE else FALSE)"

subsection \<open>Heap access\<close>

text \<open>
  \<open>cell\<close> follows an \<^verbatim>\<open>Object\<close> to its struct; \<open>None\<close> is the nil interface, on which every
  method call and field access panics. (A reference beyond the heap cannot arise, since
  references only come from \<open>alloc\<close>; it is read like nil.)
\<close>

definition cell :: "state \<Rightarrow> Object \<Rightarrow> object option" where
  "cell st obj = (case obj of None \<Rightarrow> None
                  | Some r \<Rightarrow> if r < length (heap st) then Some (heap st ! r) else None)"

definition Type :: "state \<Rightarrow> Object \<Rightarrow> ObjectType option" where
  "Type st obj = map_option object_Type (cell st obj)"

definition alloc :: "state \<Rightarrow> object \<Rightarrow> Object \<times> state" where
  "alloc st c = (Some (length (heap st)), st\<lparr>heap := heap st @ [c]\<rparr>)"

definition new :: "object \<Rightarrow> state \<Rightarrow> (Object \<times> state) res" where
  "new c st = Ok (alloc st c)"

definition ret :: "Object \<Rightarrow> state \<Rightarrow> (Object \<times> state) res" where
  "ret obj st = Ok (obj, st)"

definition put :: "ref \<Rightarrow> object \<Rightarrow> state \<Rightarrow> state" where
  "put r c st = st\<lparr>heap := (heap st)[r := c]\<rparr>"

subsection \<open>Errors\<close>

datatype errcode =
    PREFIXOP | INFIXOP | POSTFIXOP | UNKNOWNIDENT | NOMETHODERROR | NOINDEXERROR | NOTHASHABLE
  | INDEXERROR | SLICEERROR | ARGUMENTNUMERROR | ARGUMENTTYPEERROR | RTERROR | CONSTRUCTERR
  | INLENERR | DIVIDEBYZERO | NOTFUNC | REDEFINE | TIMEOUT | NOTLVALUE | INDEXINT

fun errorType :: "errcode \<Rightarrow> string" where
  "errorType PREFIXOP = ''unsupported prefix operator '' @ [CHR 0x27] @ ''%s'' @ [CHR 0x27] @ '' for type: %s''"
| "errorType INFIXOP = ''unsupported infix operator '' @ [CHR 0x27] @ ''%s'' @ [CHR 0x27] @ '' for type %s and %s''"
| "errorType POSTFIXOP = ''unsupported postfix operator '' @ [CHR 0x27] @ ''%s'' @ [CHR 0x27] @ '' for type: %s''"
| "errorType UNKNOWNIDENT = ''unknown identifier: '' @ [CHR 0x27] @ ''%s'' @ [CHR 0x27] @ '' is not defined''"
| "errorType NOMETHODERROR = ''undefined method '' @ [CHR 0x27] @ ''%s'' @ [CHR 0x27] @ '' for object %s''"
| "errorType NOINDEXERROR = ''type %s does not support index operator''"
| "errorType NOTHASHABLE = ''type %s is not hashable''"
| "errorType INDEXERROR = ''index '' @ [CHR 0x27] @ ''%d'' @ [CHR 0x27] @ '' is out of range, valid range is [%d, %d]''"
| "errorType SLICEERROR = ''slicing start index %d must not be greater than end index %d''"
| "errorType ARGUMENTNUMERROR = ''wrong number of arguments. expected: %s, got: %d''"
| "errorType ARGUMENTTYPEERROR = ''wrong type of arguments. expected: %s, got: %s''"
| "errorType RTERROR = ''return type should be %s''"
| "errorType CONSTRUCTERR = ''%s argument for addm should be type %s. got: %s''"
| "errorType INLENERR = ''function %s takes input with max length %s. got: %s''"
| "errorType DIVIDEBYZERO = ''cannot divide by zero''"
| "errorType NOTFUNC = ''%s is not a function''"
| "errorType REDEFINE = ''variable %s has been defined''"
| "errorType TIMEOUT = ''evaluation timeout''"
| "errorType NOTLVALUE = ''the expression %s is not an lvalue''"
| "errorType INDEXINT = ''index must be integer''"

definition error_msg :: "errcode \<Rightarrow> fmtarg list \<Rightarrow> string" where
  "error_msg t args = Sprintf (errorType t) args"

definition newError :: "errcode \<Rightarrow> fmtarg list \<Rightarrow> state \<Rightarrow> (Object \<times> state) res" where
  "newError t args st = new (Error (error_msg t args)) st"

definition newErrorf :: "string \<Rightarrow> fmtarg list \<Rightarrow> state \<Rightarrow> (Object \<times> state) res" where
  "newErrorf format args st = new (Error (Sprintf format args)) st"

definition T :: "ObjectType \<Rightarrow> fmtarg" where
  "T t = S (type_name t)"

subsection \<open>Slices\<close>

text \<open>
  Indexing and slicing check their bounds as Go does (\<open>None\<close> is the panic); \<^verbatim>\<open>append\<close>
  writes in place while the capacity lasts and moves the elements to a fresh backing array
  when it does not.
\<close>

definition backing :: "state \<Rightarrow> slice \<Rightarrow> Object list" where
  "backing st sl = (if s_arr sl < length (arrays st) then arrays st ! s_arr sl else [])"

definition slice_elems :: "state \<Rightarrow> slice \<Rightarrow> Object list" where
  "slice_elems st sl = take (s_len sl) (drop (s_off sl) (backing st sl) @ replicate (s_len sl) None)"

definition slice_get :: "state \<Rightarrow> slice \<Rightarrow> int \<Rightarrow> Object option" where
  "slice_get st sl i = (if 0 \<le> i \<and> i < int (s_len sl) then Some (slice_elems st sl ! nat i) else None)"

definition slice_set :: "state \<Rightarrow> slice \<Rightarrow> int \<Rightarrow> Object \<Rightarrow> state option" where
  "slice_set st sl i v =
     (if 0 \<le> i \<and> i < int (s_len sl)
      then Some (st\<lparr>arrays := (arrays st)[s_arr sl := (backing st sl)[s_off sl + nat i := v]]\<rparr>)
      else None)"

definition reslice :: "slice \<Rightarrow> int \<Rightarrow> int \<Rightarrow> slice option" where
  "reslice sl lo hi =
     (if 0 \<le> lo \<and> lo \<le> hi \<and> hi \<le> int (s_cap sl)
      then Some (Slice (s_arr sl) (s_off sl + nat lo) (nat (hi - lo)) (s_cap sl - nat lo))
      else None)"

definition empty_slice :: slice where
  "empty_slice = Slice 0 0 0 0"

definition append_slice :: "runtime \<Rightarrow> state \<Rightarrow> slice \<Rightarrow> Object \<Rightarrow> slice \<times> state" where
  "append_slice rt st sl v =
     (if s_len sl < s_cap sl
      then (Slice (s_arr sl) (s_off sl) (s_len sl + 1) (s_cap sl),
            st\<lparr>arrays := (arrays st)[s_arr sl := (backing st sl)[s_off sl + s_len sl := v]]\<rparr>)
      else (let c = max (s_len sl + 1) (growslice rt (s_cap sl) (s_len sl + 1)) in
            (Slice (length (arrays st)) 0 (s_len sl + 1) c,
             st\<lparr>arrays := arrays st @ [slice_elems st sl @ [v] @ replicate (c - (s_len sl + 1)) None]\<rparr>)))"


subsection \<open>Rendering: the String(stack) methods\<close>

primrec obj_String :: "runtime \<Rightarrow> state \<Rightarrow> nat \<Rightarrow> nat \<Rightarrow> Object \<Rightarrow> string res" where
  "obj_String rt st 0 = (\<lambda>stack obj. OutOfFuel)"
| "obj_String rt st (Suc n) = (\<lambda>stack obj.
     case cell st obj of
       None \<Rightarrow> Panic
     | Some (Integer v) \<Rightarrow> Ok (itoa (sint v))
     | Some (Float f) \<Rightarrow> Ok (FormatFloat rt f)
     | Some (Boolean b) \<Rightarrow> Ok (if b then ''true'' else ''false'')
     | Some Null \<Rightarrow> Ok ''null''
     | Some (Error m) \<Rightarrow> Ok (''Error: '' @ m)
     | Some Break \<Rightarrow> Ok ''break''
     | Some Continue \<Rightarrow> Ok ''continue''
     | Some (ReturnValue v) \<Rightarrow> obj_String rt st n stack v
     | Some (String x) \<Rightarrow> Ok x
     | Some (Function params body sc) \<Rightarrow>
         (case body of None \<Rightarrow> Panic
          | Some stmts \<Rightarrow> or_panic (node_String (BlockStatement stmts))
              (\<lambda>b. Ok (''function('' @ Join params '', '' @ '') { '' @ b @ '' }'')))
     | Some (Builtin f) \<Rightarrow> Ok ''[builtin]''
     | Some (Array sl) \<Rightarrow>
         (if stack = 10 then Ok ''ARRAY...''
          else pure_bnd (res_list (map (obj_String rt st n (stack + 1)) (slice_elems st sl)))
                 (\<lambda>es. Ok (''['' @ Join es '', '' @ '']'')))
     | Some (Hash pairs) \<Rightarrow>
         (if stack = 10 then Ok ''HASH...''
          else pure_bnd (res_list (map (\<lambda>p.
                   pure_bnd (obj_String rt st n (stack + 1) (Key (snd p))) (\<lambda>k.
                   pure_bnd (obj_String rt st n (stack + 1) (Val (snd p))) (\<lambda>v.
                   Ok (k @ '':'' @ v)))) pairs))
                 (\<lambda>ps. Ok (''{'' @ Join ps '', '' @ ''}''))))"

subsection \<open>Hash keys\<close>

text \<open>The \<^verbatim>\<open>Hashable\<close> objects and their \<^verbatim>\<open>HashKey()\<close>; \<open>None\<close> is an object that is not hashable.\<close>

definition hashKey :: "runtime \<Rightarrow> state \<Rightarrow> Object \<Rightarrow> HashKey option" where
  "hashKey rt st obj = (case cell st obj of
       Some (Integer v) \<Rightarrow> Some (HashKey IntegerObj v)
     | Some (Float f) \<Rightarrow> Some (HashKey FloatObj (fnv64a (FormatFloat rt f)))
     | Some (Boolean b) \<Rightarrow> Some (HashKey BooleanObj (if b then 1 else 0))
     | Some (String x) \<Rightarrow> Some (HashKey StringObj (fnv64a x))
     | _ \<Rightarrow> None)"

subsection \<open>Scopes\<close>

definition NewScope :: "nat option \<Rightarrow> state \<Rightarrow> nat \<times> state" where
  "NewScope parent st = (length (scopes st), st\<lparr>scopes := scopes st @ [Scope [] parent]\<rparr>)"

definition frame :: "state \<Rightarrow> nat \<Rightarrow> scope" where
  "frame st s = (if s < length (scopes st) then scopes st ! s else Scope [] None)"

text \<open>\<open>store_at\<close> is the map read \<^verbatim>\<open>store[key]\<close>: nil for a key that is not there.\<close>

definition store_at :: "scope \<Rightarrow> string \<Rightarrow> Object" where
  "store_at sc key = (case map_of (store sc) key of None \<Rightarrow> None | Some v \<Rightarrow> v)"

text \<open>
  The loop with which \<^verbatim>\<open>Get\<close>, \<^verbatim>\<open>Delete\<close> and \<^verbatim>\<open>Reset\<close> begin: walk to the parent while
  the frame has nothing under the key and has a parent.
\<close>

primrec walk :: "nat \<Rightarrow> state \<Rightarrow> string \<Rightarrow> nat \<Rightarrow> nat res" where
  "walk 0 st key s = OutOfFuel"
| "walk (Suc n) st key s =
     (if store_at (frame st s) key = None \<and> parentScope (frame st s) \<noteq> None
      then walk n st key (the (parentScope (frame st s)))
      else Ok s)"

definition Scope_Get :: "nat \<Rightarrow> state \<Rightarrow> nat \<Rightarrow> string \<Rightarrow> (Object \<times> bool) res" where
  "Scope_Get n st s key = pure_bnd (walk n st key s) (\<lambda>sc.
     case map_of (store (frame st sc)) key of None \<Rightarrow> Ok (None, False) | Some v \<Rightarrow> Ok (v, True))"

definition Scope_GetCurrent :: "state \<Rightarrow> nat \<Rightarrow> string \<Rightarrow> Object \<times> bool" where
  "Scope_GetCurrent st s key =
     (case map_of (store (frame st s)) key of None \<Rightarrow> (None, False) | Some v \<Rightarrow> (v, True))"

definition set_store :: "nat \<Rightarrow> (string \<times> Object) list \<Rightarrow> state \<Rightarrow> state" where
  "set_store s kvs st = st\<lparr>scopes := (scopes st)[s := Scope kvs (parentScope (frame st s))]\<rparr>"

definition Scope_Set :: "state \<Rightarrow> nat \<Rightarrow> string \<Rightarrow> Object \<Rightarrow> Object \<times> state" where
  "Scope_Set st s key v = (v, set_store s (AList.update key v (store (frame st s))) st)"

definition Scope_Reset :: "nat \<Rightarrow> state \<Rightarrow> nat \<Rightarrow> string \<Rightarrow> Object \<Rightarrow> ((Object \<times> bool) \<times> state) res" where
  "Scope_Reset n st s key v = pure_bnd (walk n st key s) (\<lambda>sc.
     case map_of (store (frame st sc)) key of
       Some old \<Rightarrow> Ok ((v, True), set_store sc (AList.update key v (store (frame st sc))) st)
     | None \<Rightarrow> Ok ((v, False), st))"

definition Scope_Delete :: "nat \<Rightarrow> state \<Rightarrow> nat \<Rightarrow> string \<Rightarrow> ((Object \<times> bool) \<times> state) res" where
  "Scope_Delete n st s key = pure_bnd (walk n st key s) (\<lambda>sc.
     case map_of (store (frame st sc)) key of
       Some old \<Rightarrow> Ok ((old, True), set_store sc (AList.delete key (store (frame st sc))) st)
     | None \<Rightarrow> Ok ((None, False), st))"


section \<open>The evaluator (evaluator.go)\<close>

subsection \<open>Truthiness, indices\<close>

definition isTruthy :: "state \<Rightarrow> Object \<Rightarrow> bool" where
  "isTruthy st obj = (case cell st obj of
       Some (Boolean b) \<Rightarrow> b
     | Some Null \<Rightarrow> False
     | Some (Integer v) \<Rightarrow> (if v = 0 then False else True)
     | Some (Float f) \<Rightarrow> (if f_eq f (Num 0) then False else True)
     | _ \<Rightarrow> True)"

definition isNumber :: "state \<Rightarrow> Object \<Rightarrow> bool option" where
  "isNumber st obj = map_option (\<lambda>t. t = IntegerObj \<or> t = FloatObj) (Type st obj)"

text \<open>
  \<^verbatim>\<open>calcIndex(max, idxExpr, end)\<close> returns the index and an error that is nil when the index is
  valid. \<^verbatim>\<open>max\<close> is a length and a negative index is at least \<open>- 2 ^ 63\<close>, so the one
  addition cannot overflow and is written on the integers.
\<close>

definition calcIndex :: "int \<Rightarrow> Object \<Rightarrow> bool \<Rightarrow> state \<Rightarrow> ((int \<times> Object) \<times> state) res" where
  "calcIndex mx idxExpr isEnd st = (case cell st idxExpr of
       Some (Integer v) \<Rightarrow>
         (let idx0 = sint v;
              mx1 = (if isEnd then mx + 1 else mx);
              originIdx = idx0;
              idx = (if idx0 < 0 then idx0 + mx1 else idx0)
          in if idx \<ge> mx1 then
               bnd (newError INDEXERROR [D originIdx, D 0, D (mx1 - 1)] st) (\<lambda>e st'. Ok ((idx, e), st'))
             else if idx < 0 then
               bnd (newError INDEXERROR [D originIdx, D (- 1), D (- mx1)] st) (\<lambda>e st'. Ok ((idx, e), st'))
             else Ok ((idx, None), st))
     | _ \<Rightarrow> bnd (newError INDEXINT [] st) (\<lambda>e st'. Ok ((0, e), st')))"

subsection \<open>Prefix and postfix operators\<close>

definition evalBangExpression :: "state \<Rightarrow> Object \<Rightarrow> Object" where
  "evalBangExpression st right =
     (if right = TRUE then FALSE
      else if right = FALSE then TRUE
      else if right = NULL then TRUE
      else (case cell st right of
              Some (Integer v) \<Rightarrow> (if v = 0 then TRUE else FALSE)
            | Some (Float f) \<Rightarrow> (if f_eq f (Num 0) then TRUE else FALSE)
            | _ \<Rightarrow> FALSE))"

definition evalMinusPrefixExpression :: "Object \<Rightarrow> state \<Rightarrow> (Object \<times> state) res" where
  "evalMinusPrefixExpression right st = (case cell st right of
       Some (Integer v) \<Rightarrow> new (Integer (- v)) st
     | Some (Float f) \<Rightarrow> new (Float (f_neg f)) st
     | _ \<Rightarrow> ret NULL st)"

text \<open>
  The four increment and decrement operators write the operand's own struct
  (\<^verbatim>\<open>r.Value++\<close>) and return a fresh object: the new value for the prefix forms, the old
  one for the postfix forms.
\<close>

definition evalIncrPrefixExpression :: "Object \<Rightarrow> state \<Rightarrow> (Object \<times> state) res" where
  "evalIncrPrefixExpression right st = (case cell st right of
       Some (Integer v) \<Rightarrow> new (Integer (v + 1)) (put (the right) (Integer (v + 1)) st)
     | Some (Float f) \<Rightarrow> new (Float (f_add f (Num 1))) (put (the right) (Float (f_add f (Num 1))) st)
     | _ \<Rightarrow> ret NULL st)"

definition evalIncrPostfixExpression :: "Object \<Rightarrow> state \<Rightarrow> (Object \<times> state) res" where
  "evalIncrPostfixExpression left st = (case cell st left of
       Some (Integer v) \<Rightarrow> new (Integer v) (put (the left) (Integer (v + 1)) st)
     | Some (Float f) \<Rightarrow> new (Float f) (put (the left) (Float (f_add f (Num 1))) st)
     | _ \<Rightarrow> ret NULL st)"

definition evalDecrPrefixExpression :: "Object \<Rightarrow> state \<Rightarrow> (Object \<times> state) res" where
  "evalDecrPrefixExpression right st = (case cell st right of
       Some (Integer v) \<Rightarrow> new (Integer (v - 1)) (put (the right) (Integer (v - 1)) st)
     | Some (Float f) \<Rightarrow> new (Float (f_sub f (Num 1))) (put (the right) (Float (f_sub f (Num 1))) st)
     | _ \<Rightarrow> ret NULL st)"

definition evalDecrPostfixExpression :: "Object \<Rightarrow> state \<Rightarrow> (Object \<times> state) res" where
  "evalDecrPostfixExpression left st = (case cell st left of
       Some (Integer v) \<Rightarrow> new (Integer v) (put (the left) (Integer (v - 1)) st)
     | Some (Float f) \<Rightarrow> new (Float f) (put (the left) (Float (f_sub f (Num 1))) st)
     | _ \<Rightarrow> ret NULL st)"

definition evalPrefixExpression :: "string \<Rightarrow> Object \<Rightarrow> state \<Rightarrow> (Object \<times> state) res" where
  "evalPrefixExpression op right st = or_panic (Type st right) (\<lambda>t.
     if t = ErrorObj then ret right st
     else if op = ''!'' then ret (evalBangExpression st right) st
     else if op = ''-'' then evalMinusPrefixExpression right st
     else if op = ''++'' then evalIncrPrefixExpression right st
     else if op = ''--'' then evalDecrPrefixExpression right st
     else newError PREFIXOP [S op, T t] st)"

definition evalPostfixExpression :: "Object \<Rightarrow> string \<Rightarrow> state \<Rightarrow> (Object \<times> state) res" where
  "evalPostfixExpression left op st = or_panic (Type st left) (\<lambda>t.
     if t = ErrorObj then ret left st
     else if op = ''++'' then evalIncrPostfixExpression left st
     else if op = ''--'' then evalDecrPostfixExpression left st
     else newError POSTFIXOP [S op, T t] st)"

subsection \<open>Infix operators\<close>

definition evalEquality :: "state \<Rightarrow> Object \<Rightarrow> Object \<Rightarrow> bool res" where
  "evalEquality st left right =
     or_panic (cell st left) (\<lambda>l. or_panic (cell st right) (\<lambda>r.
       if object_Type l \<noteq> object_Type r then Ok False
       else (case (l, r) of
               (Boolean a, Boolean b) \<Rightarrow> Ok (a = b)
             | (Null, _) \<Rightarrow> Ok True
             | (Integer a, Integer b) \<Rightarrow> Ok (a = b)
             | (Float a, Float b) \<Rightarrow> Ok (f_eq a b)
             | (String a, String b) \<Rightarrow> Ok (a = b)
             | _ \<Rightarrow> Ok False)))"

text \<open>
  The operand of a numeric operator as a \<^verbatim>\<open>float64\<close>: an \<^verbatim>\<open>*Integer\<close> is converted, anything
  else is asserted to be a \<^verbatim>\<open>*Float\<close> (the assertion panics otherwise).
\<close>

definition float_operand :: "state \<Rightarrow> Object \<Rightarrow> float64 option" where
  "float_operand st obj = (case cell st obj of
       Some (Integer i) \<Rightarrow> Some (float64_of_int64 i)
     | Some (Float f) \<Rightarrow> Some f
     | _ \<Rightarrow> None)"

definition evalNumberInfixExpression :: "Object \<Rightarrow> string \<Rightarrow> Object \<Rightarrow> state \<Rightarrow> (Object \<times> state) res" where
  "evalNumberInfixExpression left op right st =
     or_panic (Type st left) (\<lambda>lt. or_panic (Type st right) (\<lambda>rty.
     or_panic (float_operand st left) (\<lambda>lv. or_panic (float_operand st right) (\<lambda>rv.
       let needInt = (lt = IntegerObj \<and> rty = IntegerObj) in
       if op = ''+'' then
         (if needInt then new (Integer (int64_of_float64 (f_add lv rv))) st
          else new (Float (f_add lv rv)) st)
       else if op = ''-'' then
         (if needInt then new (Integer (int64_of_float64 (f_sub lv rv))) st
          else new (Float (f_sub lv rv)) st)
       else if op = ''*'' then
         (if needInt then new (Integer (int64_of_float64 (f_mul lv rv))) st
          else new (Float (f_mul lv rv)) st)
       else if op = ''/'' then
         (if f_eq rv (Num 0) then newError DIVIDEBYZERO [] st
          else if needInt then new (Integer (int64_of_float64 (f_div lv rv))) st
          else new (Float (f_div lv rv)) st)
       else if op = ''%'' then
         (if needInt then new (Integer (int64_of_float64 (math_Mod lv rv))) st
          else new (Float (math_Mod lv rv)) st)
       else if op = ''>'' then ret (nativeBoolToBooleanObject (f_lt rv lv)) st
       else if op = ''>='' then ret (nativeBoolToBooleanObject (f_le rv lv)) st
       else if op = ''<'' then ret (nativeBoolToBooleanObject (f_lt lv rv)) st
       else if op = ''<='' then ret (nativeBoolToBooleanObject (f_le lv rv)) st
       else if op = ''=='' then ret (nativeBoolToBooleanObject (f_eq lv rv)) st
       else if op = ''!='' then ret (nativeBoolToBooleanObject (\<not> f_eq lv rv)) st
       else newError INFIXOP [S op, T lt, T rty] st))))"

definition evalStringInfixExpression ::
  "runtime \<Rightarrow> nat \<Rightarrow> Object \<Rightarrow> string \<Rightarrow> Object \<Rightarrow> state \<Rightarrow> (Object \<times> state) res" where
  "evalStringInfixExpression rt n left op right st =
     (if op = ''+'' then
        pure_bnd (obj_String rt st n 0 left) (\<lambda>l. pure_bnd (obj_String rt st n 0 right) (\<lambda>r.
          new (String (l @ r)) st))
      else or_panic (Type st left) (\<lambda>lt. or_panic (Type st right) (\<lambda>rty.
          newError INFIXOP [S op, T lt, T rty] st)))"

definition evalInfixExpression ::
  "runtime \<Rightarrow> nat \<Rightarrow> Object \<Rightarrow> string \<Rightarrow> Object \<Rightarrow> state \<Rightarrow> (Object \<times> state) res" where
  "evalInfixExpression rt n left op right st =
     or_panic (Type st left) (\<lambda>lt.
       if lt = ErrorObj then ret left st
       else or_panic (Type st right) (\<lambda>rty.
         if rty = ErrorObj then ret right st
         else if op = ''&&'' then
           ret (nativeBoolToBooleanObject (isTruthy st left \<and> isTruthy st right)) st
         else if op = ''||'' then
           ret (nativeBoolToBooleanObject (isTruthy st left \<or> isTruthy st right)) st
         else if isNumber st left = Some True \<and> isNumber st right = Some True then
           evalNumberInfixExpression left op right st
         else if op = ''=='' then
           pure_bnd (evalEquality st left right) (\<lambda>b. ret (nativeBoolToBooleanObject b) st)
         else if op = ''!='' then
           pure_bnd (evalEquality st left right) (\<lambda>b. ret (nativeBoolToBooleanObject (\<not> b)) st)
         else if lt = StringObj \<or> rty = StringObj then
           evalStringInfixExpression rt n left op right st
         else newError INFIXOP [S op, T lt, T rty] st))"


subsection \<open>Compound assignment\<close>

text \<open>
  The four compound operators are written out one after the other in the source, with the
  same shape; \<open>arith_int\<close> and \<open>arith_float\<close> select the operation. Go's integer division
  panics on a zero divisor, which is \<open>None\<close>.
\<close>

definition is_arith_assign :: "string \<Rightarrow> bool" where
  "is_arith_assign op = (op = ''+='' \<or> op = ''-='' \<or> op = ''*='' \<or> op = ''/='')"

definition arith_int :: "string \<Rightarrow> int64 \<Rightarrow> int64 \<Rightarrow> int64 option" where
  "arith_int op a b =
     (if op = ''+='' then Some (a + b)
      else if op = ''-='' then Some (a - b)
      else if op = ''*='' then Some (a * b)
      else if b = 0 then None else Some (int64_div a b))"

definition arith_float :: "string \<Rightarrow> float64 \<Rightarrow> float64 \<Rightarrow> float64" where
  "arith_float op a b =
     (if op = ''+='' then f_add a b
      else if op = ''-='' then f_sub a b
      else if op = ''*='' then f_mul a b
      else f_div a b)"

definition float_or_zero :: "state \<Rightarrow> Object \<Rightarrow> float64" where
  "float_or_zero st obj = (case cell st obj of
       Some (Integer i) \<Rightarrow> float64_of_int64 i
     | Some (Float f) \<Rightarrow> f
     | _ \<Rightarrow> Num 0)"

text \<open>\<^verbatim>\<open>ret, _ := s.Reset(name, c); return ret\<close> for a freshly allocated \<open>c\<close>.\<close>

definition reset_new :: "nat \<Rightarrow> nat \<Rightarrow> string \<Rightarrow> object \<Rightarrow> state \<Rightarrow> (Object \<times> state) res" where
  "reset_new n s name c st =
     pure_bnd (Scope_Reset n (snd (alloc st c)) s name (fst (alloc st c))) (\<lambda>r. Ok (fst (fst r), snd r))"

definition evalNumberAssignExpression ::
  "nat \<Rightarrow> string \<Rightarrow> Object \<Rightarrow> Object \<Rightarrow> string \<Rightarrow> nat \<Rightarrow> state \<Rightarrow> (Object \<times> state) res" where
  "evalNumberAssignExpression n name oldValue newValue op s st =
     or_panic (Type st oldValue) (\<lambda>ot. or_panic (Type st newValue) (\<lambda>nt.
       if \<not> (nt = IntegerObj \<or> nt = FloatObj) then newError INFIXOP [S op, T ot, T nt] st
       else
         let needInt = (ot = IntegerObj \<and> nt = IntegerObj);
             oldV = float_or_zero st oldValue;
             newV = float_or_zero st newValue
         in
         if op = ''+='' \<or> op = ''-='' \<or> op = ''*='' then
           (if needInt
            then or_panic (arith_int op (int64_of_float64 oldV) (int64_of_float64 newV))
                   (\<lambda>v. reset_new n s name (Integer v) st)
            else reset_new n s name (Float (arith_float op oldV newV)) st)
         else if op = ''/='' then
           (if needInt
            then (if f_eq newV (Num 0) then newError DIVIDEBYZERO [] st
                  else or_panic (arith_int op (int64_of_float64 oldV) (int64_of_float64 newV))
                         (\<lambda>v. reset_new n s name (Integer v) st))
            else reset_new n s name (Float (f_div oldV newV)) st)
         else newError INFIXOP [S op, T ot, T nt] st))"

text \<open>
  \<^verbatim>\<open>updateArray\<close> and \<^verbatim>\<open>updateHash\<close> apply a compound operator to an element in the same
  way; they differ in where the element is and how a replacement is stored there
  (\<^verbatim>\<open>objects[idx] = x\<close>, \<^verbatim>\<open>hash.Pairs[hashkey] = HashPair{key, x}\<close>), which is the
  parameter \<open>store_new\<close>. An Integer or Float element is changed in its own struct, except
  that an Integer combined with a Float is replaced by a new Float.
\<close>

definition updateElem ::
  "runtime \<Rightarrow> nat \<Rightarrow> Object \<Rightarrow> (Object \<Rightarrow> state \<Rightarrow> state) \<Rightarrow> string \<Rightarrow> Object \<Rightarrow> state
    \<Rightarrow> (Object \<times> state) res" where
  "updateElem rt n elem store_new op newValue st =
     (let final = or_panic (Type st elem) (\<lambda>et. or_panic (Type st newValue) (\<lambda>nt.
                    newError INFIXOP [S op, T et, T nt] st))
      in case cell st elem of
        Some (Integer old) \<Rightarrow>
          (if is_arith_assign op then
             (case cell st newValue of
                None \<Rightarrow> Panic
              | Some (Integer nv) \<Rightarrow>
                  (if op = ''/='' \<and> nv = 0 then newError DIVIDEBYZERO [] st
                   else or_panic (arith_int op old nv)
                          (\<lambda>v. ret elem (put (the elem) (Integer v) st)))
              | Some (Float nf) \<Rightarrow>
                  (if op = ''/='' \<and> f_eq nf (Num 0) then newError DIVIDEBYZERO [] st
                   else bnd (new (Float (arith_float op (float64_of_int64 old) nf)) st)
                          (\<lambda>x st'. ret x (store_new x st')))
              | Some c \<Rightarrow> newError INFIXOP [S op, T IntegerObj, T (object_Type c)] st)
           else final)
      | Some (Float old) \<Rightarrow>
          (if is_arith_assign op then
             (case cell st newValue of
                None \<Rightarrow> Panic
              | Some (Integer nv) \<Rightarrow>
                  (if op = ''/='' \<and> nv = 0 then newError DIVIDEBYZERO [] st
                   else ret elem (put (the elem) (Float (arith_float op old (float64_of_int64 nv))) st))
              | Some (Float nf) \<Rightarrow>
                  (if op = ''/='' \<and> f_eq nf (Num 0) then newError DIVIDEBYZERO [] st
                   else ret elem (put (the elem) (Float (arith_float op old nf)) st))
              | Some c \<Rightarrow> ret elem st)
           else final)
      | Some (String old) \<Rightarrow>
          (if op = ''+='' then
             pure_bnd (obj_String rt st n 0 newValue)
               (\<lambda>x. ret elem (put (the elem) (String (old @ x)) st))
           else final)
      | _ \<Rightarrow> final)"

definition updateArray ::
  "runtime \<Rightarrow> nat \<Rightarrow> slice \<Rightarrow> int \<Rightarrow> string \<Rightarrow> Object \<Rightarrow> state \<Rightarrow> (Object \<times> state) res" where
  "updateArray rt n objects idx op newValue st =
     (if op = ''='' then or_panic (slice_set st objects idx newValue) (\<lambda>st'. ret newValue st')
      else or_panic (slice_get st objects idx) (\<lambda>elem.
             updateElem rt n elem (\<lambda>x st'. case slice_set st' objects idx x of
                                             Some st'' \<Rightarrow> st'' | None \<Rightarrow> st') op newValue st))"

definition set_pair :: "ref \<Rightarrow> HashKey \<Rightarrow> HashPair \<Rightarrow> state \<Rightarrow> state" where
  "set_pair h k p st = (case cell st (Some h) of
       Some (Hash pairs) \<Rightarrow> put h (Hash (AList.update k p pairs)) st
     | _ \<Rightarrow> st)"

text \<open>
  \<open>pair_lookup\<close> is the map read \<^verbatim>\<open>kv, ok := hash.Pairs[k]\<close>, and \<open>pair_value\<close> is
  \<^verbatim>\<open>hash.Pairs[k].Value\<close>, which is nil for a key that is not there.
\<close>

definition pair_lookup :: "state \<Rightarrow> ref \<Rightarrow> HashKey \<Rightarrow> HashPair option" where
  "pair_lookup st h k = (case cell st (Some h) of
       Some (Hash pairs) \<Rightarrow> map_of pairs k
     | _ \<Rightarrow> None)"

definition pair_value :: "state \<Rightarrow> ref \<Rightarrow> HashKey \<Rightarrow> Object" where
  "pair_value st h k = (case pair_lookup st h k of Some p \<Rightarrow> Val p | None \<Rightarrow> None)"

definition updateHash ::
  "runtime \<Rightarrow> nat \<Rightarrow> ref \<Rightarrow> Object \<Rightarrow> string \<Rightarrow> Object \<Rightarrow> state \<Rightarrow> (Object \<times> state) res" where
  "updateHash rt n h k op newValue st =
     (case hashKey rt st k of
        None \<Rightarrow> or_panic (Type st k) (\<lambda>kt. newError NOTHASHABLE [T kt] st)
      | Some hashkey \<Rightarrow>
          if op = ''='' then ret newValue (set_pair h hashkey (HashPair k newValue) st)
          else updateElem rt n (pair_value st h hashkey)
                 (\<lambda>x st'. set_pair h hashkey (HashPair k x) st') op newValue st)"

subsection \<open>Methods (CallMethod) and builtin functions\<close>

text \<open>\<open>arg_at\<close> is the index expression \<^verbatim>\<open>args[i]\<close> with Go's bounds check.\<close>

definition arg_at :: "Object list \<Rightarrow> nat \<Rightarrow> Object option" where
  "arg_at args i = (if i < length args then Some (args ! i) else None)"

fun new_strings :: "runtime \<Rightarrow> string list \<Rightarrow> slice \<Rightarrow> state \<Rightarrow> slice \<times> state" where
  "new_strings rt [] elements st = (elements, st)"
| "new_strings rt (x # xs) elements st =
     new_strings rt xs (fst (append_slice rt (snd (alloc st (String x))) elements (fst (alloc st (String x)))))
                       (snd (append_slice rt (snd (alloc st (String x))) elements (fst (alloc st (String x)))))"

definition String_CallMethod ::
  "runtime \<Rightarrow> string \<Rightarrow> string \<Rightarrow> Object list \<Rightarrow> state \<Rightarrow> (Object \<times> state) res" where
  "String_CallMethod rt s method args st =
     (if method = ''toLower'' then
        (if length args \<noteq> 0 then newError ARGUMENTNUMERROR [S ''0'', D (int (length args))] st
         else new (String (ToLower rt s)) st)
      else if method = ''toUpper'' then
        (if length args \<noteq> 0 then newError ARGUMENTNUMERROR [S ''0'', D (int (length args))] st
         else new (String (ToUpper rt s)) st)
      else if method = ''split'' then
        (if length args \<noteq> 1 then newError ARGUMENTNUMERROR [S ''1'', D (int (length args))] st
         else or_panic (arg_at args 0) (\<lambda>a0. or_panic (Type st a0) (\<lambda>t0.
           if t0 \<noteq> StringObj then
             or_panic (arg_at args 1) (\<lambda>a1. or_panic (Type st a1) (\<lambda>t1.
               newError ARGUMENTTYPEERROR [S ''STRING'', T t1] st))
           else (case cell st a0 of
                   Some (String sep) \<Rightarrow>
                     new (Array (fst (new_strings rt (Split rt s sep) empty_slice st)))
                         (snd (new_strings rt (Split rt s sep) empty_slice st))
                 | _ \<Rightarrow> Panic))))
      else newError NOMETHODERROR [S method, T StringObj] st)"

fun push_all :: "runtime \<Rightarrow> Object list \<Rightarrow> slice \<Rightarrow> state \<Rightarrow> slice \<times> state" where
  "push_all rt [] elements st = (elements, st)"
| "push_all rt (x # xs) elements st =
     push_all rt xs (fst (append_slice rt st elements x)) (snd (append_slice rt st elements x))"

definition Array_CallMethod ::
  "runtime \<Rightarrow> ref \<Rightarrow> slice \<Rightarrow> string \<Rightarrow> Object list \<Rightarrow> state \<Rightarrow> (Object \<times> state) res" where
  "Array_CallMethod rt a elements method args st =
     (if method = ''push'' then
        new (Integer (of_nat (s_len (fst (push_all rt args elements st)))))
            (put a (Array (fst (push_all rt args elements st))) (snd (push_all rt args elements st)))
      else if method = ''pop'' then
        (if s_len elements = 0 then newErrorf ''array is empty'' [] st
         else or_panic (slice_get st elements (int (s_len elements) - 1)) (\<lambda>r.
              or_panic (reslice elements 0 (int (s_len elements) - 1)) (\<lambda>sl.
                ret r (put a (Array sl) st))))
      else newError NOMETHODERROR [S method, T ArrayObj] st)"

definition CallMethod ::
  "runtime \<Rightarrow> Object \<Rightarrow> string \<Rightarrow> Object list \<Rightarrow> state \<Rightarrow> (Object \<times> state) res" where
  "CallMethod rt obj method args st = (case cell st obj of
       None \<Rightarrow> Panic
     | Some (String s) \<Rightarrow> String_CallMethod rt s method args st
     | Some (Array elements) \<Rightarrow> Array_CallMethod rt (the obj) elements method args st
     | Some c \<Rightarrow> newError NOMETHODERROR [S method, T (object_Type c)] st)"

definition builtin_len :: "Object list \<Rightarrow> state \<Rightarrow> (Object \<times> state) res" where
  "builtin_len args st =
     (if length args \<noteq> 1 then newError ARGUMENTNUMERROR [S ''1'', D (int (length args))] st
      else (case cell st (args ! 0) of
              Some (String x) \<Rightarrow> new (Integer (of_nat (length x))) st
            | Some (Array sl) \<Rightarrow> new (Integer (of_nat (s_len sl))) st
            | Some (Hash pairs) \<Rightarrow> new (Integer (of_nat (length pairs))) st
            | Some c \<Rightarrow> newError ARGUMENTTYPEERROR [S ''STRING'', T (object_Type c)] st
            | None \<Rightarrow> Panic))"

definition builtin_number :: "runtime \<Rightarrow> Object list \<Rightarrow> state \<Rightarrow> (Object \<times> state) res" where
  "builtin_number rt args st =
     (if length args \<noteq> 1 then newError ARGUMENTNUMERROR [S ''1'', D (int (length args))] st
      else (case cell st (args ! 0) of
              Some (Integer i) \<Rightarrow> ret (args ! 0) st
            | Some (Float f) \<Rightarrow> ret (args ! 0) st
            | Some (String x) \<Rightarrow>
                (case Atoi x of
                   Some i \<Rightarrow> new (Integer (word_of_int i)) st
                 | None \<Rightarrow> (case ParseFloat rt x of
                               Some f \<Rightarrow> new (Float f) st
                             | None \<Rightarrow> newErrorf ''%s is not a number'' [S x] st))
            | Some c \<Rightarrow> newError ARGUMENTTYPEERROR [S ''STRING'', T (object_Type c)] st
            | None \<Rightarrow> Panic))"

definition builtin_string :: "runtime \<Rightarrow> nat \<Rightarrow> Object list \<Rightarrow> state \<Rightarrow> (Object \<times> state) res" where
  "builtin_string rt n args st =
     (if length args \<noteq> 1 then newError ARGUMENTNUMERROR [S ''1'', D (int (length args))] st
      else (case cell st (args ! 0) of
              Some (String x) \<Rightarrow> ret (args ! 0) st
            | _ \<Rightarrow> pure_bnd (obj_String rt st n 0 (args ! 0)) (\<lambda>x. new (String x) st)))"

definition builtin_int :: "runtime \<Rightarrow> nat \<Rightarrow> Object list \<Rightarrow> state \<Rightarrow> (Object \<times> state) res" where
  "builtin_int rt n args st =
     (if length args \<noteq> 1 then newError ARGUMENTNUMERROR [S ''1'', D (int (length args))] st
      else (case cell st (args ! 0) of
              Some (Integer i) \<Rightarrow> ret (args ! 0) st
            | Some (Float f) \<Rightarrow> new (Integer (int64_of_float64 f)) st
            | Some (Boolean b) \<Rightarrow> new (Integer (if b then 1 else 0)) st
            | Some (String x) \<Rightarrow>
                (case Atoi x of
                   Some i \<Rightarrow> new (Integer (word_of_int i)) st
                 | None \<Rightarrow> newErrorf ''%s is not an integer'' [S x] st)
            | _ \<Rightarrow> pure_bnd (obj_String rt st n 0 (args ! 0)) (\<lambda>x. new (String x) st)))"

definition builtin_now :: "runtime \<Rightarrow> Object list \<Rightarrow> state \<Rightarrow> (Object \<times> state) res" where
  "builtin_now rt args st =
     (if length args \<noteq> 0 then newError ARGUMENTNUMERROR [S ''0'', D (int (length args))] st
      else new (String (Now rt (polls st))) st)"

definition builtin_print :: "runtime \<Rightarrow> nat \<Rightarrow> Object list \<Rightarrow> state \<Rightarrow> (Object \<times> state) res" where
  "builtin_print rt n args st =
     pure_bnd (res_list (map (obj_String rt st n 0) args))
       (\<lambda>strs. ret NULL (st\<lparr>stdout := stdout st @ [Join strs '', '']\<rparr>))"

fun apply_builtin :: "runtime \<Rightarrow> nat \<Rightarrow> builtin_fn \<Rightarrow> Object list \<Rightarrow> state \<Rightarrow> (Object \<times> state) res" where
  "apply_builtin rt n B_len args st = builtin_len args st"
| "apply_builtin rt n B_number args st = builtin_number rt args st"
| "apply_builtin rt n B_string args st = builtin_string rt n args st"
| "apply_builtin rt n B_int args st = builtin_int rt n args st"
| "apply_builtin rt n B_now args st = builtin_now rt args st"
| "apply_builtin rt n B_print args st = builtin_print rt n args st"

subsection \<open>The functions that call Eval\<close>

text \<open>
  \<^verbatim>\<open>Eval\<close> and the functions below call each other. Each of them takes \<open>ev\<close>, which is
  \<^verbatim>\<open>Eval\<close> with the fuel that is left, and \<open>Eval\<close> ties the knot at the end of the section.
  The loops (\<^verbatim>\<open>while\<close>, \<^verbatim>\<open>for\<close>) take the same fuel as a bound on their iterations.
\<close>

type_synonym evalT = "node \<Rightarrow> nat \<Rightarrow> state \<Rightarrow> (Object \<times> state) res"

text \<open>
  The recurring steps \<^verbatim>\<open>x := Eval(ctx, nd, s); if x.Type() == ErrorObj { return x }\<close>.
\<close>

definition eval_checked ::
  "evalT \<Rightarrow> node \<Rightarrow> nat \<Rightarrow> state \<Rightarrow> (Object \<Rightarrow> state \<Rightarrow> (Object \<times> state) res) \<Rightarrow> (Object \<times> state) res" where
  "eval_checked ev nd s st k =
     bnd (ev nd s st) (\<lambda>x st'. or_panic (Type st' x) (\<lambda>t. if t = ErrorObj then ret x st' else k x st'))"

text \<open>A field of type \<^verbatim>\<open>*BlockStatement\<close> passed to \<^verbatim>\<open>Eval\<close> as a \<^verbatim>\<open>Node\<close>.\<close>

definition block_node :: "node list option \<Rightarrow> node" where
  "block_node b = (case b of None \<Rightarrow> NilBlockStatement | Some stmts \<Rightarrow> BlockStatement stmts)"

primrec evalProgram :: "evalT \<Rightarrow> node list \<Rightarrow> nat \<Rightarrow> Object \<Rightarrow> state \<Rightarrow> (Object \<times> state) res" where
  "evalProgram ev [] s result st = ret result st"
| "evalProgram ev (stmt # stmts) s result st =
     (if stmt = ExpressionStatement NilNode then evalProgram ev stmts s result st
      else bnd (ev stmt s st) (\<lambda>r st'.
             case cell st' r of
               Some (ReturnValue v) \<Rightarrow> ret v st'
             | Some (Error m) \<Rightarrow> ret r st'
             | _ \<Rightarrow> evalProgram ev stmts s r st'))"

primrec evalBlockStatement :: "evalT \<Rightarrow> node list \<Rightarrow> nat \<Rightarrow> Object \<Rightarrow> state \<Rightarrow> (Object \<times> state) res" where
  "evalBlockStatement ev [] s result st = ret result st"
| "evalBlockStatement ev (stmt # stmts) s result st =
     (if stmt = ExpressionStatement NilNode then evalBlockStatement ev stmts s result st
      else bnd (ev stmt s st) (\<lambda>r st'.
             if r \<noteq> None then
               or_panic (Type st' r) (\<lambda>typ.
                 if typ = ReturnValueObj \<or> typ = ErrorObj then ret r st'
                 else if typ = BreakObj then ret r st'
                 else if typ = ContinueObj then ret r st'
                 else evalBlockStatement ev stmts s r st')
             else evalBlockStatement ev stmts s r st'))"

definition evalLetStatement :: "evalT \<Rightarrow> string option \<Rightarrow> node \<Rightarrow> nat \<Rightarrow> state \<Rightarrow> (Object \<times> state) res" where
  "evalLetStatement ev name v s st =
     or_panic name (\<lambda>x.
       if snd (Scope_GetCurrent st s x) then newError REDEFINE [S x] st
       else bnd (ev v s st) (\<lambda>v st'.
              or_panic (Type st' v) (\<lambda>t.
                if t \<noteq> ErrorObj then Ok (Scope_Set st' s x v) else ret v st')))"

definition evalDeleteStatement ::
  "runtime \<Rightarrow> nat \<Rightarrow> evalT \<Rightarrow> node \<Rightarrow> nat \<Rightarrow> state \<Rightarrow> (Object \<times> state) res" where
  "evalDeleteStatement rt n ev v s st = (case v of
       Identifier x \<Rightarrow>
         bnd (ev v s st) (\<lambda>old st'. pure_bnd (Scope_Delete n st' s x) (\<lambda>r. ret old (snd r)))
     | IndexExpression l i \<Rightarrow>
         bnd (ev l s st) (\<lambda>left st1. bnd (ev i s st1) (\<lambda>index st2.
           case cell st2 left of
             Some (Array sl) \<Rightarrow>
               bnd (calcIndex (int (s_len sl)) index False st2) (\<lambda>ie st3.
                 if snd ie \<noteq> None then ret (snd ie) st3
                 else or_panic (slice_get st3 sl (fst ie)) (\<lambda>old.
                      or_panic (slice_set st3 sl (fst ie) NULL) (\<lambda>st4. ret old st4)))
           | Some (Hash pairs) \<Rightarrow>
               (case hashKey rt st2 index of
                  Some k \<Rightarrow>
                    (case map_of pairs k of
                       None \<Rightarrow> ret NULL st2
                     | Some p \<Rightarrow> ret (Val p) (put (the left) (Hash (AList.delete k pairs)) st2))
                | None \<Rightarrow> ret NULL st2)
           | _ \<Rightarrow> ret NULL st2))
     | _ \<Rightarrow> or_panic (node_String v) (\<lambda>x. newError NOTLVALUE [S x] st))"

definition evalIfExpression ::
  "evalT \<Rightarrow> node \<Rightarrow> node list option \<Rightarrow> node list option \<Rightarrow> nat \<Rightarrow> state \<Rightarrow> (Object \<times> state) res" where
  "evalIfExpression ev c cons alt s st =
     bnd (ev c s st) (\<lambda>cond st'.
       if isTruthy st' cond then ev (block_node cons) s st'
       else if alt \<noteq> None then ev (block_node alt) s st'
       else ret NULL st')"

text \<open>What both loops return when they are left without a return value or an error.\<close>

definition loopResult :: "Object \<Rightarrow> state \<Rightarrow> (Object \<times> state) res" where
  "loopResult result st =
     (if result = None \<or> Type st result = Some BreakObj \<or> Type st result = Some ContinueObj
      then ret NULL st else ret result st)"

primrec whileLoop ::
  "evalT \<Rightarrow> node \<Rightarrow> node list option \<Rightarrow> nat \<Rightarrow> nat \<Rightarrow> Object \<Rightarrow> Object \<Rightarrow> state \<Rightarrow> (Object \<times> state) res" where
  "whileLoop ev c body s 0 condition result st = OutOfFuel"
| "whileLoop ev c body s (Suc k) condition result st =
     (if \<not> isTruthy st condition then loopResult result st
      else bnd (ev (block_node body) s st) (\<lambda>result st1.
        or_panic (Type st1 result) (\<lambda>t.
          if t = ErrorObj then ret result st1
          else if t = BreakObj then loopResult result st1
          else if t = ContinueObj then whileLoop ev c body s k condition result st1
          else if t = ReturnValueObj then
            (case cell st1 result of
               Some (ReturnValue v) \<Rightarrow> if v \<noteq> None then ret result st1 else loopResult result st1
             | _ \<Rightarrow> Panic)
          else bnd (ev c s st1) (\<lambda>condition st2.
                 or_panic (Type st2 condition) (\<lambda>ct.
                   if ct = ErrorObj then ret condition st2
                   else whileLoop ev c body s k condition result st2)))))"

definition evalWhileExpression ::
  "nat \<Rightarrow> evalT \<Rightarrow> node \<Rightarrow> node list option \<Rightarrow> nat \<Rightarrow> state \<Rightarrow> (Object \<times> state) res" where
  "evalWhileExpression n ev c body scope st =
     eval_checked ev c (fst (NewScope (Some scope) st)) (snd (NewScope (Some scope) st))
       (\<lambda>condition st1. whileLoop ev c body (fst (NewScope (Some scope) st)) n condition None st1)"

primrec forLoop ::
  "evalT \<Rightarrow> node \<Rightarrow> node \<Rightarrow> node list option \<Rightarrow> nat \<Rightarrow> nat \<Rightarrow> Object \<Rightarrow> Object \<Rightarrow> state \<Rightarrow> (Object \<times> state) res" where
  "forLoop ev c upd body inner 0 condition result st = OutOfFuel"
| "forLoop ev c upd body inner (Suc k) condition result st =
     (if \<not> isTruthy st condition then loopResult result st
      else bnd (ev (block_node body) (fst (NewScope (Some inner) st)) (snd (NewScope (Some inner) st)))
       (\<lambda>result st1.
        if result \<noteq> None \<and> Type st1 result = Some ErrorObj then ret result st1
        else if Type st1 result = Some BreakObj then loopResult result st1
        else if Type st1 result = Some ContinueObj then
          eval_checked ev upd (fst (NewScope (Some inner) st)) st1 (\<lambda>newVal st2.
          eval_checked ev c (fst (NewScope (Some inner) st)) st2 (\<lambda>condition st3.
            forLoop ev c upd body inner k condition result st3))
        else if Type st1 result = Some ReturnValueObj then
          (case cell st1 result of
             Some (ReturnValue v) \<Rightarrow> if v \<noteq> None then ret result st1 else loopResult result st1
           | _ \<Rightarrow> Panic)
        else
          (if upd \<noteq> NilNode then eval_checked ev upd (fst (NewScope (Some inner) st)) st1
           else (\<lambda>k. k None st1))
          (\<lambda>newVal st2.
             if c \<noteq> NilNode then
               eval_checked ev c (fst (NewScope (Some inner) st)) st2 (\<lambda>condition st3.
                 forLoop ev c upd body inner k condition result st3)
             else forLoop ev c upd body inner k condition result st2)))"

definition evalForExpression ::
  "nat \<Rightarrow> evalT \<Rightarrow> node \<Rightarrow> node \<Rightarrow> node \<Rightarrow> node list option \<Rightarrow> nat \<Rightarrow> state \<Rightarrow> (Object \<times> state) res" where
  "evalForExpression n ev init c upd body s st =
     (if init \<noteq> NilNode
      then eval_checked ev init (fst (NewScope (Some s) st)) (snd (NewScope (Some s) st))
      else (\<lambda>k. k None (snd (NewScope (Some s) st))))
     (\<lambda>i st1.
        (if c \<noteq> NilNode then eval_checked ev c (fst (NewScope (Some s) st)) st1
         else (\<lambda>k. k None st1))
        (\<lambda>condition st2. forLoop ev c upd body (fst (NewScope (Some s) st)) n condition None st2))"

definition evalIdentifier :: "nat \<Rightarrow> string \<Rightarrow> nat \<Rightarrow> state \<Rightarrow> (Object \<times> state) res" where
  "evalIdentifier n key s st =
     pure_bnd (Scope_Get n st s key) (\<lambda>r.
       if \<not> snd r then
         (case map_of builtins key of
            None \<Rightarrow> newError UNKNOWNIDENT [S key] st
          | Some b \<Rightarrow> ret b st)
       else ret (fst r) st)"

definition evalTypeofExpression :: "evalT \<Rightarrow> node \<Rightarrow> nat \<Rightarrow> state \<Rightarrow> (Object \<times> state) res" where
  "evalTypeofExpression ev e s st =
     bnd (ev e s st) (\<lambda>v st'. or_panic (Type st' v) (\<lambda>t. new (String (type_name t)) st'))"

primrec evalExpressions ::
  "evalT \<Rightarrow> node list \<Rightarrow> nat \<Rightarrow> Object list \<Rightarrow> state \<Rightarrow> (Object list \<times> state) res" where
  "evalExpressions ev [] s results st = Ok (results, st)"
| "evalExpressions ev (argument # arguments) s results st =
     bnd (ev argument s st) (\<lambda>result st'.
       or_panic (Type st' result) (\<lambda>t.
         if t = ErrorObj then Ok ([result], st')
         else evalExpressions ev arguments s (results @ [result]) st'))"

fun bind_params :: "string list \<Rightarrow> Object list \<Rightarrow> nat \<Rightarrow> state \<Rightarrow> state option" where
  "bind_params [] args sub st = Some st"
| "bind_params (p # ps) [] sub st = None"
| "bind_params (p # ps) (a # as) sub st = bind_params ps as sub (snd (Scope_Set st sub p a))"

definition applyFunction ::
  "runtime \<Rightarrow> nat \<Rightarrow> evalT \<Rightarrow> Object \<Rightarrow> Object list \<Rightarrow> state \<Rightarrow> (Object \<times> state) res" where
  "applyFunction rt n ev funcObj args st = (case cell st funcObj of
       Some (Function params body fscope) \<Rightarrow>
         or_panic (bind_params params args (fst (NewScope (Some fscope) st)) (snd (NewScope (Some fscope) st)))
           (\<lambda>st1. bnd (ev (block_node body) (fst (NewScope (Some fscope) st)) st1) (\<lambda>result st2.
              case cell st2 result of
                Some (ReturnValue v) \<Rightarrow> ret v st2
              | _ \<Rightarrow> ret result st2))
     | Some (Builtin f) \<Rightarrow> apply_builtin rt n f args st
     | _ \<Rightarrow> pure_bnd (obj_String rt st n 0 funcObj) (\<lambda>x. newError NOTFUNC [S x] st))"

definition evalCallExpression ::
  "runtime \<Rightarrow> nat \<Rightarrow> evalT \<Rightarrow> node \<Rightarrow> node list \<Rightarrow> nat \<Rightarrow> state \<Rightarrow> (Object \<times> state) res" where
  "evalCallExpression rt n ev f arguments s st =
     eval_checked ev f s st (\<lambda>function st1.
       bnd (evalExpressions ev arguments s [] st1) (\<lambda>args st2.
         if length args = 1 \<and> Type st2 (args ! 0) = Some ErrorObj then ret (args ! 0) st2
         else applyFunction rt n ev function args st2))"

primrec evalElements ::
  "runtime \<Rightarrow> evalT \<Rightarrow> node list \<Rightarrow> nat \<Rightarrow> slice \<Rightarrow> state \<Rightarrow> (slice \<times> state) res" where
  "evalElements rt ev [] s elements st = Ok (elements, st)"
| "evalElements rt ev (e # es) s elements st =
     bnd (ev e s st) (\<lambda>v st'.
       evalElements rt ev es s (fst (append_slice rt st' elements v)) (snd (append_slice rt st' elements v)))"

definition evalArrayLiteral :: "runtime \<Rightarrow> evalT \<Rightarrow> node list \<Rightarrow> nat \<Rightarrow> state \<Rightarrow> (Object \<times> state) res" where
  "evalArrayLiteral rt ev es s st =
     bnd (new (Array empty_slice) st) (\<lambda>arr st0.
       bnd (evalElements rt ev es s empty_slice st0) (\<lambda>elements st1.
         ret arr (put (the arr) (Array elements) st1)))"

definition evalStringIndexExpression :: "evalT \<Rightarrow> node \<Rightarrow> node \<Rightarrow> nat \<Rightarrow> state \<Rightarrow> (Object \<times> state) res" where
  "evalStringIndexExpression ev l i s st =
     eval_checked ev l s st (\<lambda>left st1. eval_checked ev i s st1 (\<lambda>index st2.
       case cell st2 left of
         Some (String str) \<Rightarrow>
           bnd (calcIndex (int (length str)) index False st2) (\<lambda>ie st3.
             if snd ie \<noteq> None then ret (snd ie) st3
             else new (String (string_of_byte (str ! nat (fst ie)))) st3)
       | _ \<Rightarrow> Panic))"

definition evalArrayIndexExpressionFunc ::
  "runtime \<Rightarrow> nat \<Rightarrow> evalT \<Rightarrow> node \<Rightarrow> node \<Rightarrow> nat \<Rightarrow> string \<Rightarrow> Object
    \<Rightarrow> (slice \<Rightarrow> int \<Rightarrow> state \<Rightarrow> (Object \<times> state) res) \<Rightarrow> state \<Rightarrow> (Object \<times> state) res" where
  "evalArrayIndexExpressionFunc rt n ev l i s op newValue f st =
     eval_checked ev l s st (\<lambda>left st1. eval_checked ev i s st1 (\<lambda>index st2.
       case cell st2 left of
         Some (Array elements) \<Rightarrow>
           bnd (calcIndex (int (s_len elements)) index False st2) (\<lambda>ie st3.
             if snd ie \<noteq> None then ret (snd ie) st3 else f elements (fst ie) st3)
       | Some (String str) \<Rightarrow> newErrorf ''string is immutable'' [] st2
       | Some (Hash pairs) \<Rightarrow> updateHash rt n (the left) index op newValue st2
       | _ \<Rightarrow> pure_bnd (obj_String rt st2 n 0 left) (\<lambda>x. newErrorf ''%s is not a hash'' [S x] st2)))"

definition evalHashIndexExpressionFunc ::
  "runtime \<Rightarrow> nat \<Rightarrow> evalT \<Rightarrow> node \<Rightarrow> node \<Rightarrow> nat \<Rightarrow> string \<Rightarrow> Object
    \<Rightarrow> (ref \<Rightarrow> Object \<Rightarrow> state \<Rightarrow> (Object \<times> state) res) \<Rightarrow> state \<Rightarrow> (Object \<times> state) res" where
  "evalHashIndexExpressionFunc rt n ev l i s op newValue f st =
     eval_checked ev l s st (\<lambda>left st1. eval_checked ev i s st1 (\<lambda>index st2.
       case cell st2 left of
         Some (String str) \<Rightarrow> newErrorf ''string is immutable'' [] st2
       | Some (Hash pairs) \<Rightarrow> f (the left) index st2
       | Some (Array objects) \<Rightarrow>
           (case cell st2 index of
              Some (Integer idx) \<Rightarrow> updateArray rt n objects (sint idx) op newValue st2
            | _ \<Rightarrow> newError INDEXINT [] st2)
       | _ \<Rightarrow> pure_bnd (obj_String rt st2 n 0 left) (\<lambda>x. newErrorf ''%s is not a hash'' [S x] st2)))"

text \<open>
  A slice of an array is a new \<^verbatim>\<open>Array\<close> struct over \<^verbatim>\<open>Elements[startIdx:endIdx]\<close>, a
  slice header into the same backing array; a slice of a string is a new string.
\<close>

definition evalSliceExpression ::
  "evalT \<Rightarrow> Object \<Rightarrow> node \<Rightarrow> node \<Rightarrow> nat \<Rightarrow> state \<Rightarrow> (Object \<times> state) res" where
  "evalSliceExpression ev obj startN endN s st =
     (case (case cell st obj of
              Some (Array elements) \<Rightarrow> Some (Some (int (s_len elements)))
            | Some (String str) \<Rightarrow> Some (Some (int (length str)))
            | Some c \<Rightarrow> Some None
            | None \<Rightarrow> None) of
        None \<Rightarrow> Panic
      | Some None \<Rightarrow> or_panic (Type st obj) (\<lambda>t. newError NOINDEXERROR [T t] st)
      | Some (Some l) \<Rightarrow>
          eval_checked ev startN s st (\<lambda>start st1.
          bnd (calcIndex l start False st1) (\<lambda>se st2.
            if snd se \<noteq> None then ret (snd se) st2
            else
              (if endN \<noteq> NilNode then
                 (\<lambda>k. eval_checked ev endN s st2 (\<lambda>end1 st3.
                        bnd (calcIndex l end1 True st3) (\<lambda>ee st4.
                          if snd ee \<noteq> None then ret (snd ee) st4 else k (fst ee) st4)))
               else (\<lambda>k. k l st2))
              (\<lambda>endIdx st5.
                 if fst se > endIdx then newError SLICEERROR [D (fst se), D endIdx] st5
                 else (case cell st5 obj of
                         Some (Array elements) \<Rightarrow>
                           or_panic (reslice elements (fst se) endIdx) (\<lambda>sl. new (Array sl) st5)
                       | Some (String str) \<Rightarrow>
                           new (String (take (nat (endIdx - fst se)) (drop (nat (fst se)) str))) st5
                       | Some c \<Rightarrow> newError NOINDEXERROR [T (object_Type c)] st5
                       | None \<Rightarrow> Panic)))))"

definition evalIndexExpression ::
  "runtime \<Rightarrow> nat \<Rightarrow> evalT \<Rightarrow> node \<Rightarrow> node \<Rightarrow> nat \<Rightarrow> state \<Rightarrow> (Object \<times> state) res" where
  "evalIndexExpression rt n ev l i s st =
     bnd (ev l s st) (\<lambda>e st1.
       case i of
         SliceExpression startN endN \<Rightarrow> evalSliceExpression ev e startN endN s st1
       | _ \<Rightarrow>
         (case cell st1 e of
            Some (Array elements) \<Rightarrow>
              evalArrayIndexExpressionFunc rt n ev l i s [] None
                (\<lambda>arr idx st'. or_panic (slice_get st' arr idx) (\<lambda>x. ret x st')) st1
          | Some (String str) \<Rightarrow> evalStringIndexExpression ev l i s st1
          | Some (Hash pairs) \<Rightarrow>
              evalHashIndexExpressionFunc rt n ev l i s [] None
                (\<lambda>h key st'.
                   case hashKey rt st' key of
                     Some k \<Rightarrow> (case pair_lookup st' h k of
                                 Some kv \<Rightarrow> ret (Val kv) st'
                               | None \<Rightarrow> ret NULL st')
                   | None \<Rightarrow> or_panic (Type st' key) (\<lambda>t. newError NOTHASHABLE [T t] st')) st1
          | Some c \<Rightarrow> newError NOINDEXERROR [T (object_Type c)] st1
          | None \<Rightarrow> Panic))"

definition evalMethodCallExpression ::
  "runtime \<Rightarrow> evalT \<Rightarrow> node \<Rightarrow> node \<Rightarrow> nat \<Rightarrow> state \<Rightarrow> (Object \<times> state) res" where
  "evalMethodCallExpression rt ev objN callN s st =
     bnd (ev objN s st) (\<lambda>obj st1.
       case callN of
         CallExpression f arguments \<Rightarrow>
           bnd (evalExpressions ev arguments s [] st1) (\<lambda>args st2.
             or_panic (node_String f) (\<lambda>method. CallMethod rt obj method args st2))
       | _ \<Rightarrow> or_panic (node_String (MethodCallExpression objN callN)) (\<lambda>x.
                or_panic (Type st1 obj) (\<lambda>t. newError NOMETHODERROR [S x, T t] st1)))"

primrec evalPairs ::
  "runtime \<Rightarrow> evalT \<Rightarrow> (node \<times> node) list \<Rightarrow> nat \<Rightarrow> (HashKey \<times> HashPair) list \<Rightarrow> state
    \<Rightarrow> (Object \<times> state) res" where
  "evalPairs rt ev [] s hashMap st = new (Hash hashMap) st"
| "evalPairs rt ev (kv # kvs) s hashMap st =
     bnd (case fst kv of Identifier x \<Rightarrow> new (String x) st | _ \<Rightarrow> ev (fst kv) s st) (\<lambda>k st1.
       case hashKey rt st1 k of
         Some hk \<Rightarrow> bnd (ev (snd kv) s st1) (\<lambda>v st2.
                      evalPairs rt ev kvs s (AList.update hk (HashPair k v) hashMap) st2)
       | None \<Rightarrow> or_panic (Type st1 k) (\<lambda>t. newError NOTHASHABLE [T t] st1))"

definition evalHashLiteral ::
  "runtime \<Rightarrow> evalT \<Rightarrow> (node \<times> node) list \<Rightarrow> nat \<Rightarrow> state \<Rightarrow> (Object \<times> state) res" where
  "evalHashLiteral rt ev pairs s st = evalPairs rt ev pairs s [] st"

text \<open>
  The target of an assignment \<^verbatim>\<open>a[i][j] = v\<close> is found by walking down the left-hand sides
  of the nested index expressions.
\<close>

fun innermost_left :: "node \<Rightarrow> node" where
  "innermost_left (IndexExpression l i) = innermost_left l"
| "innermost_left nd = nd"

fun ident_name :: "node \<Rightarrow> string option" where
  "ident_name (Identifier x) = Some x"
| "ident_name nd = None"

definition evalAssignExpression ::
  "runtime \<Rightarrow> nat \<Rightarrow> evalT \<Rightarrow> string \<Rightarrow> node \<Rightarrow> node \<Rightarrow> nat \<Rightarrow> state \<Rightarrow> (Object \<times> state) res" where
  "evalAssignExpression rt n ev op nameN valueN s st =
     eval_checked ev valueN s st (\<lambda>newValue st1.
       bnd (case nameN of
              Identifier x \<Rightarrow> Ok ((x, None), st1)
            | IndexExpression l i \<Rightarrow>
                (case innermost_left l of
                   Identifier x \<Rightarrow> Ok ((x, None), st1)
                 | left \<Rightarrow> bnd (ev left s st1) (\<lambda>old st'. Ok (([], old), st')))
            | _ \<Rightarrow> Ok (([], None), st1))
       (\<lambda>target st2.
          (if snd target = None
           then (\<lambda>k. pure_bnd (Scope_Get n st2 s (fst target)) (\<lambda>r.
                        if \<not> snd r then newError UNKNOWNIDENT [S (fst target)] st2 else k (fst r)))
           else (\<lambda>k. k (snd target)))
          (\<lambda>oldValue.
             case (if op = ''='' then ident_name nameN else None) of
               Some x \<Rightarrow>
                 pure_bnd (Scope_Reset n st2 s x newValue) (\<lambda>r. ret (fst (fst r)) (snd r))
             | None \<Rightarrow>
               or_panic (Type st2 oldValue) (\<lambda>ot.
                 if ot = IntegerObj \<or> ot = FloatObj then
                   evalNumberAssignExpression n (fst target) oldValue newValue op s st2
                 else if ot = StringObj then
                   (case nameN of
                      IndexExpression l i \<Rightarrow> newErrorf ''string is immutable'' [] st2
                    | _ \<Rightarrow>
                      (case (cell st2 oldValue, cell st2 newValue) of
                         (Some (String a), Some (String b)) \<Rightarrow>
                           if op = ''+='' then reset_new n s (fst target) (String (a @ b)) st2
                           else newError INFIXOP [S op, T StringObj, T StringObj] st2
                       | _ \<Rightarrow> or_panic (Type st2 newValue) (\<lambda>nt.
                                newError INFIXOP [S op, T ot, T nt] st2)))
                 else if ot = ArrayObj then
                   (case nameN of
                      IndexExpression l i \<Rightarrow>
                        evalArrayIndexExpressionFunc rt n ev l i s op newValue
                          (\<lambda>objects idx st'. updateArray rt n objects idx op newValue st') st2
                    | _ \<Rightarrow> Panic)
                 else if ot = HashObj then
                   (case nameN of
                      IndexExpression l i \<Rightarrow>
                        evalHashIndexExpressionFunc rt n ev l i s op newValue
                          (\<lambda>h key st'. updateHash rt n h key op newValue st') st2
                    | _ \<Rightarrow> Panic)
                 else or_panic (Type st2 newValue) (\<lambda>nt.
                        newError INFIXOP [S op, T ot, T nt] st2)))))"

subsection \<open>Eval\<close>

text \<open>
  The context is \<open>None\<close> for one that is never cancelled (\<^verbatim>\<open>context.Background()\<close>) and
  \<open>Some d\<close> for one that is found done from the \<open>d\<close>-th look onwards; \<^verbatim>\<open>Eval\<close> looks at it
  once on entry. A node type without a case, and a nil node, evaluate to nil. \<open>Eval_node\<close>
  is the body of \<^verbatim>\<open>Eval\<close>, with \<open>ev\<close> for its recursive calls and \<open>n\<close> for the fuel they
  have.
\<close>

definition ctx_Done :: "nat option \<Rightarrow> state \<Rightarrow> bool" where
  "ctx_Done ctx st = (case ctx of None \<Rightarrow> False | Some d \<Rightarrow> d \<le> polls st)"

definition tick :: "state \<Rightarrow> state" where
  "tick st = st\<lparr>polls := polls st + 1\<rparr>"

definition Eval_node ::
  "runtime \<Rightarrow> nat option \<Rightarrow> nat \<Rightarrow> evalT \<Rightarrow> node \<Rightarrow> nat \<Rightarrow> state \<Rightarrow> (Object \<times> state) res" where
  "Eval_node rt ctx n ev nd s st =
    (if ctx_Done ctx st then newError TIMEOUT [] st
     else (case nd of
         Program stmts \<Rightarrow> evalProgram ev stmts s None (tick st)
       | ExpressionStatement e \<Rightarrow> ev e s (tick st)
       | BlockStatement stmts \<Rightarrow> evalBlockStatement ev stmts s None (tick st)
       | NilBlockStatement \<Rightarrow> Panic
       | ReturnStatement tok v \<Rightarrow>
           bnd (ev v s (tick st)) (\<lambda>x st'. new (ReturnValue x) st')
       | LetStatement tok name v \<Rightarrow> evalLetStatement ev name v s (tick st)
       | DeleteStatement v \<Rightarrow> evalDeleteStatement rt n ev v s (tick st)
       | IntegerLiteral tok v \<Rightarrow> new (Integer v) (tick st)
       | FloatLiteral tok v \<Rightarrow> new (Float v) (tick st)
       | BooleanLiteral tok v \<Rightarrow> ret (nativeBoolToBooleanObject v) (tick st)
       | StringLiteral tok v \<Rightarrow> new (String v) (tick st)
       | ArrayLiteral es \<Rightarrow> evalArrayLiteral rt ev es s (tick st)
       | HashLiteral pairs \<Rightarrow> evalHashLiteral rt ev pairs s (tick st)
       | NullExpression \<Rightarrow> ret NULL (tick st)
       | FunctionLiteral tok params body \<Rightarrow> new (Function params body s) (tick st)
       | PrefixExpression op r \<Rightarrow>
           bnd (ev r s (tick st)) (\<lambda>right st'. evalPrefixExpression op right st')
       | InfixExpression l op r \<Rightarrow>
           bnd (ev l s (tick st)) (\<lambda>left st1.
           bnd (ev r s st1) (\<lambda>right st2. evalInfixExpression rt n left op right st2))
       | PostfixExpression l op \<Rightarrow>
           bnd (ev l s (tick st)) (\<lambda>left st'. evalPostfixExpression left op st')
       | IfExpression c cons alt \<Rightarrow> evalIfExpression ev c cons alt s (tick st)
       | WhileExpression tok c body \<Rightarrow> evalWhileExpression n ev c body s (tick st)
       | BreakExpression tok \<Rightarrow> ret BREAK (tick st)
       | ContinueExpression tok \<Rightarrow> ret CONTINUE (tick st)
       | ForExpression init c upd body \<Rightarrow>
           evalForExpression n ev init c upd body s (tick st)
       | Identifier x \<Rightarrow> evalIdentifier n x s (tick st)
       | TypeofExpression e \<Rightarrow> evalTypeofExpression ev e s (tick st)
       | AssignExpression op name v \<Rightarrow>
           evalAssignExpression rt n ev op name v s (tick st)
       | CallExpression f arguments \<Rightarrow>
           evalCallExpression rt n ev f arguments s (tick st)
       | MethodCallExpression obj call \<Rightarrow>
           evalMethodCallExpression rt ev obj call s (tick st)
       | IndexExpression l i \<Rightarrow> evalIndexExpression rt n ev l i s (tick st)
       | SliceExpression a b \<Rightarrow> ret None (tick st)
       | NilNode \<Rightarrow> ret None (tick st)))"

primrec Eval :: "runtime \<Rightarrow> nat option \<Rightarrow> nat \<Rightarrow> evalT" where
  "Eval rt ctx 0 = (\<lambda>nd s st. OutOfFuel)"
| "Eval rt ctx (Suc n) = Eval_node rt ctx n (Eval rt ctx n)"

text \<open>
  A run as the drivers start it: a fresh top-level scope (\<^verbatim>\<open>NewScope(nil)\<close>) in the
  initial state, then \<^verbatim>\<open>Eval\<close> of the program.
\<close>

definition run :: "runtime \<Rightarrow> nat option \<Rightarrow> nat \<Rightarrow> node \<Rightarrow> (Object \<times> state) res" where
  "run rt ctx fuel program =
     Eval rt ctx fuel program (fst (NewScope None init_state)) (snd (NewScope None init_state))"

text \<open>What a run returns, as the cell its result points to (\<open>None\<close> for nil).\<close>

definition result_cell :: "(Object \<times> state) res \<Rightarrow> object option res" where
  "result_cell r = pure_bnd r (\<lambda>p. Ok (cell (snd p) (fst p)))"

section \<open>Token types (package token) and the parser's precedence table (parser.go)\<close>

text \<open>
  \<^verbatim>\<open>type TokenType string\<close>: a token type is a string, and package \<^verbatim>\<open>token\<close> names the
  fifty-one it uses as constants. \<^verbatim>\<open>token.X\<close> is written \<open>token_X\<close>.
\<close>

type_synonym TokenType = string

definition token_ILLEGAL :: TokenType where "token_ILLEGAL = ''ILLEGAL''"
definition token_EOF :: TokenType where "token_EOF = ''EOF''"
definition token_IDENT :: TokenType where "token_IDENT = ''IDENT''"
definition token_INT :: TokenType where "token_INT = ''INT''"
definition token_FLOAT :: TokenType where "token_FLOAT = ''FLOAT''"
definition token_EQ :: TokenType where "token_EQ = ''==''"
definition token_NEQ :: TokenType where "token_NEQ = ''!=''"
definition token_ASSIGN :: TokenType where "token_ASSIGN = ''=''"
definition token_PLUS :: TokenType where "token_PLUS = ''+''"
definition token_PLUS_A :: TokenType where "token_PLUS_A = ''+=''"
definition token_INCR :: TokenType where "token_INCR = ''++''"
definition token_MINUS :: TokenType where "token_MINUS = ''-''"
definition token_MINUS_A :: TokenType where "token_MINUS_A = ''-=''"
definition token_DECR :: TokenType where "token_DECR = ''--''"
definition token_BANG :: TokenType where "token_BANG = ''!''"
definition token_ASTERISK :: TokenType where "token_ASTERISK = ''*''"
definition token_ASTERISK_A :: TokenType where "token_ASTERISK_A = ''*=''"
definition token_SLASH :: TokenType where "token_SLASH = ''/''"
definition token_SLASH_A :: TokenType where "token_SLASH_A = ''/=''"
definition token_MOD :: TokenType where "token_MOD = ''%''"
definition token_AND :: TokenType where "token_AND = ''&&''"
definition token_OR :: TokenType where "token_OR = ''||''"
definition token_LT :: TokenType where "token_LT = ''<''"
definition token_GT :: TokenType where "token_GT = ''>''"
definition token_LTE :: TokenType where "token_LTE = ''<=''"
definition token_GTE :: TokenType where "token_GTE = ''>=''"
definition token_COMMA :: TokenType where "token_COMMA = '',''"
definition token_SEMICOLON :: TokenType where "token_SEMICOLON = '';''"
definition token_LPAREN :: TokenType where "token_LPAREN = ''(''"
definition token_RPAREN :: TokenType where "token_RPAREN = '')''"
definition token_LBRACE :: TokenType where "token_LBRACE = ''{''"
definition token_RBRACE :: TokenType where "token_RBRACE = ''}''"
definition token_LBRACKET :: TokenType where "token_LBRACKET = ''[''"
definition token_RBRACKET :: TokenType where "token_RBRACKET = '']''"
definition token_COLON :: TokenType where "token_COLON = '':''"
definition token_DOT :: TokenType where "token_DOT = ''.''"
definition token_FUNCTION :: TokenType where "token_FUNCTION = ''FUNCTION''"
definition token_LET :: TokenType where "token_LET = ''LET''"
definition token_DELETE :: TokenType where "token_DELETE = ''DELETE''"
definition token_TRUE :: TokenType where "token_TRUE = ''TRUE''"
definition token_FALSE :: TokenType where "token_FALSE = ''FALSE''"
definition token_IF :: TokenType where "token_IF = ''IF''"
definition token_ELSE :: TokenType where "token_ELSE = ''ELSE''"
definition token_RETURN :: TokenType where "token_RETURN = ''RETURN''"
definition token_STRING :: TokenType where "token_STRING = ''STRING''"
definition token_TYPEOF :: TokenType where "token_TYPEOF = ''TYPEOF''"
definition token_WHILE :: TokenType where "token_WHILE = ''WHILE''"
definition token_FOR :: TokenType where "token_FOR = ''FOR''"
definition token_BREAK :: TokenType where "token_BREAK = ''BREAK''"
definition token_CONTINUE :: TokenType where "token_CONTINUE = ''CONTINUE''"
definition token_NULL :: TokenType where "token_NULL = ''NULL''"

text \<open>The precedence levels, numbered by \<^verbatim>\<open>iota\<close> from 1.\<close>

definition LOWEST :: nat where "LOWEST = 1"
definition ASSIGN :: nat where "ASSIGN = 2"
definition OR_LEVEL :: nat where "OR_LEVEL = 3"
definition AND_LEVEL :: nat where "AND_LEVEL = 4"
definition EQUALS :: nat where "EQUALS = 5"
definition LESSGREATER :: nat where "LESSGREATER = 6"
definition SLICE :: nat where "SLICE = 7"
definition SUM_LEVEL :: nat where "SUM_LEVEL = 8"
definition PRODUCT :: nat where "PRODUCT = 9"
definition PREFIX :: nat where "PREFIX = 10"
definition CALL :: nat where "CALL = 11"
definition INDEX :: nat where "INDEX = 12"
definition INCRDECR :: nat where "INCRDECR = 13"

definition precedences :: "(TokenType \<times> nat) list" where
  "precedences =
    [(token_ASSIGN, ASSIGN),
     (token_AND, AND_LEVEL),
     (token_OR, OR_LEVEL),
     (token_EQ, EQUALS),
     (token_NEQ, EQUALS),
     (token_LT, LESSGREATER),
     (token_LTE, LESSGREATER),
     (token_GT, LESSGREATER),
     (token_GTE, LESSGREATER),
     (token_COLON, SLICE),
     (token_PLUS, SUM_LEVEL),
     (token_MINUS, SUM_LEVEL),
     (token_PLUS_A, SUM_LEVEL),
     (token_MINUS_A, SUM_LEVEL),
     (token_MOD, PRODUCT),
     (token_ASTERISK, PRODUCT),
     (token_ASTERISK_A, PRODUCT),
     (token_SLASH, PRODUCT),
     (token_SLASH_A, PRODUCT),
     (token_LPAREN, CALL),
     (token_DOT, CALL),
     (token_LBRACKET, INDEX),
     (token_INCR, INCRDECR),
     (token_DECR, INCRDECR)]"

text \<open>\<^verbatim>\<open>peekPrecedence\<close> and \<^verbatim>\<open>curPrecedence\<close> look a token type up and fall back to \<^verbatim>\<open>LOWEST\<close>.\<close>

definition precedence_of :: "TokenType \<Rightarrow> nat" where
  "precedence_of t = (case map_of precedences t of Some p \<Rightarrow> p | None \<Rightarrow> LOWEST)"

section \<open>The programs of the claims, as the parser builds them\<close>

text \<open>
  \<^verbatim>\<open>ParseProgram\<close> and \<^verbatim>\<open>parseBlockStatement\<close> parse a statement at every token that the
  statement before left unread. No statement reads its closing \<^verbatim>\<open>;\<close>, so each \<^verbatim>\<open>;\<close> becomes
  a statement of its own, an \<^verbatim>\<open>ExpressionStatement\<close> whose \<^verbatim>\<open>Expression\<close> is nil
  (\<^verbatim>\<open>parseExpression\<close> returns nil at a \<^verbatim>\<open>;\<close>).
\<close>

text \<open>\<^verbatim>\<open>[1, 2, 3]\<close>\<close>

definition arr123 :: node where
  "arr123 = ArrayLiteral [IntegerLiteral ''1'' 1, IntegerLiteral ''2'' 2, IntegerLiteral ''3'' 3]"



text \<open>\<^verbatim>\<open>1 == 1.0\<close>, \<^verbatim>\<open>9007199254740993 == 9007199254740992\<close> and \<^verbatim>\<open>nosuch == 1\<close>\<close>

definition prog_int_eq_float :: node where
  "prog_int_eq_float =
     Program [ExpressionStatement
       (InfixExpression (IntegerLiteral ''1'' 1) ''=='' (FloatLiteral ''1.0'' (Num 1)))]"

definition prog_big_ints_eq :: node where
  "prog_big_ints_eq =
     Program [ExpressionStatement
       (InfixExpression (IntegerLiteral ''9007199254740993'' 9007199254740993) ''==''
                        (IntegerLiteral ''9007199254740992'' 9007199254740992))]"

definition prog_error_eq :: node where
  "prog_error_eq =
     Program [ExpressionStatement
       (InfixExpression (Identifier ''nosuch'') ''=='' (IntegerLiteral ''1'' 1))]"

text \<open>\<^verbatim>\<open>let x\<close> (and \<^verbatim>\<open>let x = ;\<close>): the initializer is absent.\<close>

definition prog_let_x :: node where
  "prog_let_x = Program [LetStatement ''let'' (Some ''x'') NilNode]"

text \<open>\<^verbatim>\<open>"abc".split(1)\<close> and \<^verbatim>\<open>"a,b".split(",")\<close>\<close>

definition prog_split_int :: node where
  "prog_split_int =
     Program [ExpressionStatement
       (MethodCallExpression (StringLiteral ''abc'' ''abc'')
          (CallExpression (Identifier ''split'') [IntegerLiteral ''1'' 1]))]"

text \<open>
  \<^verbatim>\<open>let a = 5.0; a /= 0\<close>, \<^verbatim>\<open>let a = 5; a /= 0.0\<close>, \<^verbatim>\<open>let a = 5; a /= 0\<close> and \<^verbatim>\<open>5 / 0\<close>
\<close>

definition prog_float_var_div_zero :: node where
  "prog_float_var_div_zero =
     Program [LetStatement ''let'' (Some ''a'') (FloatLiteral ''5.0'' (Num 5)),
              ExpressionStatement NilNode,
              ExpressionStatement
                (AssignExpression ''/='' (Identifier ''a'') (IntegerLiteral ''0'' 0))]"

definition prog_int_var_div_float_zero :: node where
  "prog_int_var_div_float_zero =
     Program [LetStatement ''let'' (Some ''a'') (IntegerLiteral ''5'' 5),
              ExpressionStatement NilNode,
              ExpressionStatement
                (AssignExpression ''/='' (Identifier ''a'') (FloatLiteral ''0.0'' (Num 0)))]"

definition prog_int_var_div_zero :: node where
  "prog_int_var_div_zero =
     Program [LetStatement ''let'' (Some ''a'') (IntegerLiteral ''5'' 5),
              ExpressionStatement NilNode,
              ExpressionStatement
                (AssignExpression ''/='' (Identifier ''a'') (IntegerLiteral ''0'' 0))]"

definition prog_div_zero :: node where
  "prog_div_zero =
     Program [ExpressionStatement
       (InfixExpression (IntegerLiteral ''5'' 5) ''/'' (IntegerLiteral ''0'' 0))]"

text \<open>
  \<^verbatim>\<open>let a=[1,2,3]; let b=a[0:2]; b[0]=99; a[0]\<close> and, the other way round,
  \<^verbatim>\<open>let a=[1,2,3]; let b=a[0:2]; a[0]=99; b[0]\<close>
\<close>

definition prog_slice_write_b :: node where
  "prog_slice_write_b =
     Program [LetStatement ''let'' (Some ''a'') arr123,
              ExpressionStatement NilNode,
              LetStatement ''let'' (Some ''b'')
                (IndexExpression (Identifier ''a'')
                   (SliceExpression (IntegerLiteral ''0'' 0) (IntegerLiteral ''2'' 2))),
              ExpressionStatement NilNode,
              ExpressionStatement
                (AssignExpression ''='' (IndexExpression (Identifier ''b'') (IntegerLiteral ''0'' 0))
                   (IntegerLiteral ''99'' 99)),
              ExpressionStatement NilNode,
              ExpressionStatement (IndexExpression (Identifier ''a'') (IntegerLiteral ''0'' 0))]"

definition prog_slice_write_a :: node where
  "prog_slice_write_a =
     Program [LetStatement ''let'' (Some ''a'') arr123,
              ExpressionStatement NilNode,
              LetStatement ''let'' (Some ''b'')
                (IndexExpression (Identifier ''a'')
                   (SliceExpression (IntegerLiteral ''0'' 0) (IntegerLiteral ''2'' 2))),
              ExpressionStatement NilNode,
              ExpressionStatement
                (AssignExpression ''='' (IndexExpression (Identifier ''a'') (IntegerLiteral ''0'' 0))
                   (IntegerLiteral ''99'' 99)),
              ExpressionStatement NilNode,
              ExpressionStatement (IndexExpression (Identifier ''b'') (IntegerLiteral ''0'' 0))]"

text \<open>\<^verbatim>\<open>let a = 1; false && a++; a\<close> and \<^verbatim>\<open>let a = 1; true || a++; a\<close>\<close>

definition prog_and_side_effect :: node where
  "prog_and_side_effect =
     Program [LetStatement ''let'' (Some ''a'') (IntegerLiteral ''1'' 1),
              ExpressionStatement NilNode,
              ExpressionStatement
                (InfixExpression (BooleanLiteral ''false'' False) ''&&''
                   (PostfixExpression (Identifier ''a'') ''++'')),
              ExpressionStatement NilNode,
              ExpressionStatement (Identifier ''a'')]"

definition prog_or_side_effect :: node where
  "prog_or_side_effect =
     Program [LetStatement ''let'' (Some ''a'') (IntegerLiteral ''1'' 1),
              ExpressionStatement NilNode,
              ExpressionStatement
                (InfixExpression (BooleanLiteral ''true'' True) ''||''
                   (PostfixExpression (Identifier ''a'') ''++'')),
              ExpressionStatement NilNode,
              ExpressionStatement (Identifier ''a'')]"

text \<open>
  \<^verbatim>\<open>let a = 1; let b = a; a++; b\<close> and
  \<^verbatim>\<open>let a = 1; let f = function(x) { x++; }; f(a); a\<close>
\<close>

definition prog_alias_incr :: node where
  "prog_alias_incr =
     Program [LetStatement ''let'' (Some ''a'') (IntegerLiteral ''1'' 1),
              ExpressionStatement NilNode,
              LetStatement ''let'' (Some ''b'') (Identifier ''a''),
              ExpressionStatement NilNode,
              ExpressionStatement (PostfixExpression (Identifier ''a'') ''++''),
              ExpressionStatement NilNode,
              ExpressionStatement (Identifier ''b'')]"

definition prog_arg_incr :: node where
  "prog_arg_incr =
     Program [LetStatement ''let'' (Some ''a'') (IntegerLiteral ''1'' 1),
              ExpressionStatement NilNode,
              LetStatement ''let'' (Some ''f'')
                (FunctionLiteral ''function'' [''x'']
                   (Some [ExpressionStatement (PostfixExpression (Identifier ''x'') ''++''),
                          ExpressionStatement NilNode])),
              ExpressionStatement NilNode,
              ExpressionStatement (CallExpression (Identifier ''f'') [Identifier ''a'']),
              ExpressionStatement NilNode,
              ExpressionStatement (Identifier ''a'')]"



text \<open>
  \<^verbatim>\<open>let a = lit; let b = a; step; b\<close> and \<^verbatim>\<open>let a = lit; let f = function(x) { step; }; f(a); a\<close>,
  for any names, any literal \<open>lit\<close> and any statement \<open>step\<close>.
\<close>

definition alias_prog :: "string \<Rightarrow> string \<Rightarrow> node \<Rightarrow> node \<Rightarrow> node" where
  "alias_prog a b lit step =
     Program [LetStatement ''let'' (Some a) lit,
              ExpressionStatement NilNode,
              LetStatement ''let'' (Some b) (Identifier a),
              ExpressionStatement NilNode,
              ExpressionStatement step,
              ExpressionStatement NilNode,
              ExpressionStatement (Identifier b)]"

definition arg_prog :: "string \<Rightarrow> string \<Rightarrow> string \<Rightarrow> node \<Rightarrow> node \<Rightarrow> node" where
  "arg_prog a f x lit step =
     Program [LetStatement ''let'' (Some a) lit,
              ExpressionStatement NilNode,
              LetStatement ''let'' (Some f)
                (FunctionLiteral ''function'' [x]
                   (Some [ExpressionStatement step, ExpressionStatement NilNode])),
              ExpressionStatement NilNode,
              ExpressionStatement (CallExpression (Identifier f) [Identifier a]),
              ExpressionStatement NilNode,
              ExpressionStatement (Identifier a)]"

chapter \<open>Properties\<close>

section \<open>Facts about the heap\<close>

lemma cell_Some_iff: "cell st obj = Some c \<longleftrightarrow> (\<exists>r. obj = Some r \<and> r < length (heap st) \<and> heap st ! r = c)"
  by (auto simp: cell_def split: option.splits)

lemma Type_cell: "cell st obj = Some c \<Longrightarrow> Type st obj = Some (object_Type c)"
  by (simp add: Type_def)

section \<open>Running the model\<close>

text \<open>
  The sequencing combinators evaluate their first argument before anything is done with the
  continuation.
\<close>

lemma bnd_cong [cong]: "m = m' \<Longrightarrow> bnd m f = bnd m' f"
  by simp

lemma pure_bnd_cong [cong]: "m = m' \<Longrightarrow> pure_bnd m f = pure_bnd m' f"
  by simp

lemma or_panic_cong [cong]: "m = m' \<Longrightarrow> or_panic m f = or_panic m' f"
  by simp

lemma bnd_simps [simp]:
  "bnd OutOfFuel f = OutOfFuel" "bnd Panic f = Panic" "bnd (Ok (a, st)) f = f a st"
  by (simp_all add: bnd_def)

lemma pure_bnd_simps [simp]:
  "pure_bnd OutOfFuel g = OutOfFuel" "pure_bnd Panic g = Panic" "pure_bnd (Ok a) g = g a"
  by (simp_all add: pure_bnd_def)

lemma or_panic_simps [simp]:
  "or_panic None g = Panic" "or_panic (Some a) g = g a"
  by (simp_all add: or_panic_def)

lemmas heap_defs = NULL_def BREAK_def CONTINUE_def TRUE_def FALSE_def builtins_def init_state_def
  nativeBoolToBooleanObject_def cell_def Type_def alloc_def new_def ret_def put_def
  error_msg_def newError_def newErrorf_def T_def backing_def slice_elems_def slice_get_def
  slice_set_def reslice_def empty_slice_def append_slice_def hashKey_def NewScope_def frame_def
  store_at_def Scope_Get_def Scope_GetCurrent_def set_store_def Scope_Set_def Scope_Reset_def
  Scope_Delete_def

lemmas op_defs = isTruthy_def isNumber_def calcIndex_def evalBangExpression_def
  evalMinusPrefixExpression_def evalIncrPrefixExpression_def evalIncrPostfixExpression_def
  evalDecrPrefixExpression_def evalDecrPostfixExpression_def evalPrefixExpression_def
  evalPostfixExpression_def evalEquality_def float_operand_def evalNumberInfixExpression_def
  evalStringInfixExpression_def evalInfixExpression_def is_arith_assign_def arith_int_def
  arith_float_def float_or_zero_def reset_new_def evalNumberAssignExpression_def updateElem_def
  updateArray_def set_pair_def pair_lookup_def pair_value_def updateHash_def arg_at_def
  String_CallMethod_def Array_CallMethod_def CallMethod_def builtin_len_def builtin_number_def
  builtin_string_def builtin_int_def builtin_now_def builtin_print_def

lemmas eval_defs = run_def result_cell_def Eval_node_def eval_checked_def block_node_def
  evalLetStatement_def evalDeleteStatement_def evalIfExpression_def loopResult_def
  evalWhileExpression_def evalForExpression_def evalIdentifier_def evalTypeofExpression_def
  applyFunction_def evalCallExpression_def evalArrayLiteral_def evalStringIndexExpression_def
  evalArrayIndexExpressionFunc_def evalHashIndexExpressionFunc_def evalSliceExpression_def
  evalIndexExpression_def evalMethodCallExpression_def evalHashLiteral_def evalAssignExpression_def
  ctx_Done_def tick_def Let_def

lemmas run_defs = eval_defs op_defs heap_defs go_runtime_def

lemma fuel10: "(10::nat) = Suc (Suc (Suc (Suc (Suc (Suc (Suc (Suc (Suc (Suc 0)))))))))"
  by simp

lemma float64_of_int64_0 [simp]: "float64_of_int64 0 = Num 0"
  by (simp add: float64_of_int64_def round64_def)

lemma float64_of_int64_1 [simp]: "float64_of_int64 1 = Num 1"
  by code_simp

lemma float64_of_int64_5 [simp]: "float64_of_int64 5 = Num 5"
  by code_simp

lemma f_eq_Num [simp]: "f_eq (Num a) (Num b) \<longleftrightarrow> a = b"
  by (simp add: f_eq_def)

subsection \<open>The runs of the claims' programs\<close>




lemma run_int_eq_float:
  "result_cell (run go_runtime None 10 prog_int_eq_float) = Ok (Some (Boolean True))"
  unfolding fuel10 by (simp add: run_defs prog_int_eq_float_def)

lemma run_error_eq:
  "result_cell (run go_runtime None 10 prog_error_eq)
     = Ok (Some (Error (error_msg UNKNOWNIDENT [S ''nosuch''])))"
  unfolding fuel10 by (simp add: run_defs prog_error_eq_def)

lemma run_let_x: "result_cell (run go_runtime None 10 prog_let_x) = Panic"
  unfolding fuel10 by (simp add: run_defs prog_let_x_def)

lemma run_split_int: "result_cell (run go_runtime None 10 prog_split_int) = Panic"
  unfolding fuel10 by (simp add: run_defs prog_split_int_def)

lemma run_float_var_div_zero:
  "result_cell (run go_runtime None 10 prog_float_var_div_zero) = Ok (Some (Float PInf))"
  unfolding fuel10 by (simp add: run_defs prog_float_var_div_zero_def f_div_def f_inf_def)

lemma run_int_var_div_float_zero:
  "result_cell (run go_runtime None 10 prog_int_var_div_float_zero) = Ok (Some (Float PInf))"
  unfolding fuel10 by (simp add: run_defs prog_int_var_div_float_zero_def f_div_def f_inf_def)

lemma run_int_var_div_zero:
  "result_cell (run go_runtime None 10 prog_int_var_div_zero)
     = Ok (Some (Error ''cannot divide by zero''))"
  unfolding fuel10 by (simp add: run_defs prog_int_var_div_zero_def)

lemma run_div_zero:
  "result_cell (run go_runtime None 10 prog_div_zero) = Ok (Some (Error ''cannot divide by zero''))"
  unfolding fuel10 by (simp add: run_defs prog_div_zero_def)

lemma run_slice_write_b:
  "result_cell (run go_runtime None 10 prog_slice_write_b) = Ok (Some (Integer 99))"
  unfolding fuel10 by (simp add: run_defs prog_slice_write_b_def arr123_def)

lemma run_slice_write_a:
  "result_cell (run go_runtime None 10 prog_slice_write_a) = Ok (Some (Integer 99))"
  unfolding fuel10 by (simp add: run_defs prog_slice_write_a_def arr123_def)

lemma run_and_side_effect:
  "result_cell (run go_runtime None 10 prog_and_side_effect) = Ok (Some (Integer 2))"
  unfolding fuel10 by (simp add: run_defs prog_and_side_effect_def)

lemma run_or_side_effect:
  "result_cell (run go_runtime None 10 prog_or_side_effect) = Ok (Some (Integer 2))"
  unfolding fuel10 by (simp add: run_defs prog_or_side_effect_def)

lemma run_alias_incr:
  "result_cell (run go_runtime None 10 prog_alias_incr) = Ok (Some (Integer 2))"
  unfolding fuel10 by (simp add: run_defs prog_alias_incr_def)

lemma run_arg_incr:
  "result_cell (run go_runtime None 10 prog_arg_incr) = Ok (Some (Integer 2))"
  unfolding fuel10 by (simp add: run_defs prog_arg_incr_def)

section \<open>The precedence table\<close>

lemmas token_defs =
  token_ILLEGAL_def token_EOF_def token_IDENT_def token_INT_def token_FLOAT_def
  token_EQ_def token_NEQ_def token_ASSIGN_def token_PLUS_def token_PLUS_A_def
  token_INCR_def token_MINUS_def token_MINUS_A_def token_DECR_def token_BANG_def
  token_ASTERISK_def token_ASTERISK_A_def token_SLASH_def token_SLASH_A_def token_MOD_def
  token_AND_def token_OR_def token_LT_def token_GT_def token_LTE_def
  token_GTE_def token_COMMA_def token_SEMICOLON_def token_LPAREN_def token_RPAREN_def
  token_LBRACE_def token_RBRACE_def token_LBRACKET_def token_RBRACKET_def token_COLON_def
  token_DOT_def token_FUNCTION_def token_LET_def token_DELETE_def token_TRUE_def
  token_FALSE_def token_IF_def token_ELSE_def token_RETURN_def token_STRING_def
  token_TYPEOF_def token_WHILE_def token_FOR_def token_BREAK_def token_CONTINUE_def
  token_NULL_def

text \<open>
  C6, as the code has it: the table gives \<^verbatim>\<open>=\<close> the level ASSIGN, but the compound
  assignment tokens take the level of their arithmetic operator, \<^verbatim>\<open>+=\<close> and \<^verbatim>\<open>-=\<close> SUM and
  \<^verbatim>\<open>*=\<close> and \<^verbatim>\<open>/=\<close> PRODUCT. Every other operator token has the level the specification
  lists, and a token without an entry is read at LOWEST.
\<close>

theorem precedences_table:
  "map_of precedences token_ASSIGN = Some ASSIGN
   \<and> map_of precedences token_PLUS_A = Some SUM_LEVEL
   \<and> map_of precedences token_MINUS_A = Some SUM_LEVEL
   \<and> map_of precedences token_ASTERISK_A = Some PRODUCT
   \<and> map_of precedences token_SLASH_A = Some PRODUCT
   \<and> map_of precedences token_AND = Some AND_LEVEL
   \<and> map_of precedences token_OR = Some OR_LEVEL
   \<and> map_of precedences token_EQ = Some EQUALS
   \<and> map_of precedences token_NEQ = Some EQUALS
   \<and> map_of precedences token_LT = Some LESSGREATER
   \<and> map_of precedences token_LTE = Some LESSGREATER
   \<and> map_of precedences token_GT = Some LESSGREATER
   \<and> map_of precedences token_GTE = Some LESSGREATER
   \<and> map_of precedences token_COLON = Some SLICE
   \<and> map_of precedences token_PLUS = Some SUM_LEVEL
   \<and> map_of precedences token_MINUS = Some SUM_LEVEL
   \<and> map_of precedences token_MOD = Some PRODUCT
   \<and> map_of precedences token_ASTERISK = Some PRODUCT
   \<and> map_of precedences token_SLASH = Some PRODUCT
   \<and> map_of precedences token_LPAREN = Some CALL
   \<and> map_of precedences token_DOT = Some CALL
   \<and> map_of precedences token_LBRACKET = Some INDEX
   \<and> map_of precedences token_INCR = Some INCRDECR
   \<and> map_of precedences token_DECR = Some INCRDECR
   \<and> length precedences = 24 \<and> distinct (map fst precedences)
   \<and> LOWEST < ASSIGN \<and> ASSIGN < OR_LEVEL \<and> OR_LEVEL < AND_LEVEL \<and> AND_LEVEL < EQUALS
   \<and> EQUALS < LESSGREATER \<and> LESSGREATER < SLICE \<and> SLICE < SUM_LEVEL \<and> SUM_LEVEL < PRODUCT
   \<and> PRODUCT < PREFIX \<and> PREFIX < CALL \<and> CALL < INDEX \<and> INDEX < INCRDECR"
  by (simp add: precedences_def token_defs LOWEST_def ASSIGN_def OR_LEVEL_def AND_LEVEL_def
      EQUALS_def LESSGREATER_def SLICE_def SUM_LEVEL_def PRODUCT_def PREFIX_def CALL_def INDEX_def
      INCRDECR_def)

text \<open>
  C6, as stated, fails: \<^verbatim>\<open>+=\<close> is not at the level ASSIGN (and neither are \<^verbatim>\<open>-=\<close>, \<^verbatim>\<open>*=\<close>
  and \<^verbatim>\<open>/=\<close>).
\<close>

theorem precedences_compound_assign_counterexample:
  "precedence_of token_PLUS_A \<noteq> ASSIGN \<and> precedence_of token_MINUS_A \<noteq> ASSIGN
   \<and> precedence_of token_ASTERISK_A \<noteq> ASSIGN \<and> precedence_of token_SLASH_A \<noteq> ASSIGN"
  by (simp add: precedence_of_def precedences_def token_defs ASSIGN_def SUM_LEVEL_def PRODUCT_def)

section \<open>Prefix minus\<close>

text \<open>
  C10: for an operand that is a String, a Boolean, Null, an Array, a Hash, a Function or a
  Builtin, the prefix operator \<^verbatim>\<open>-\<close> returns the Null singleton and leaves the state as it
  is; it does not build an unsupported-operator error.
\<close>

theorem minus_prefix_non_number_is_null:
  assumes "cell st right = Some c"
    and "object_Type c \<in> {StringObj, BooleanObj, NullObj, ArrayObj, HashObj, FunctionObj, BuiltinObj}"
    and "cell st NULL = Some Null"
  shows "evalPrefixExpression ''-'' right st = Ok (NULL, st) \<and> Type st NULL = Some NullObj"
proof -
  from assms(1) have ty: "Type st right = Some (object_Type c)"
    by (rule Type_cell)
  from assms(2) have "evalMinusPrefixExpression right st = ret NULL st"
    using assms(1) by (cases c) (auto simp: evalMinusPrefixExpression_def)
  moreover from assms(2) have "object_Type c \<noteq> ErrorObj"
    by auto
  ultimately have "evalPrefixExpression ''-'' right st = Ok (NULL, st)"
    using ty by (simp add: evalPrefixExpression_def or_panic_def ret_def)
  moreover from assms(3) have "Type st NULL = Some NullObj"
    by (simp add: Type_def)
  ultimately show ?thesis by simp
qed

theorem minus_prefix_non_number_is_null_witness:
  "cell (init_state\<lparr>heap := heap init_state @ [String ''abc'']\<rparr>) (Some 11) = Some (String ''abc'')
   \<and> evalPrefixExpression ''-'' (Some 11) (init_state\<lparr>heap := heap init_state @ [String ''abc'']\<rparr>)
       = Ok (NULL, init_state\<lparr>heap := heap init_state @ [String ''abc'']\<rparr>)"
proof -
  let ?st = "init_state\<lparr>heap := heap init_state @ [String ''abc'']\<rparr>"
  have c: "cell ?st (Some 11) = Some (String ''abc'')"
    by (simp add: cell_def init_state_def)
  have t: "object_Type (String ''abc'') \<in> {StringObj, BooleanObj, NullObj, ArrayObj, HashObj, FunctionObj, BuiltinObj}"
    by simp
  have n: "cell ?st NULL = Some Null"
    by (simp add: cell_def init_state_def NULL_def)
  show ?thesis
    using minus_prefix_non_number_is_null [OF c t n] c by simp
qed

section \<open>An absent initializer\<close>

text \<open>
  C3: the evaluator does not tolerate the absent initializer of \<^verbatim>\<open>let x\<close>. \<^verbatim>\<open>Eval\<close> of the
  nil node returns nil, and \<^verbatim>\<open>evalLetStatement\<close> calls \<^verbatim>\<open>v.Type()\<close> on it: the run
  panics, with any runtime, with a context that is never cancelled and with any fuel that
  reaches the call.
\<close>

theorem let_without_initializer_panics:
  "run rt None (Suc (Suc (Suc k))) (Program [LetStatement tok (Some x) NilNode]) = Panic
   \<and> result_cell (run go_runtime None 10 prog_let_x) = Panic"
proof -
  have "run rt None (Suc (Suc (Suc k))) (Program [LetStatement tok (Some x) NilNode]) = Panic"
    by (simp add: eval_defs heap_defs)
  with run_let_x show ?thesis by simp
qed

section \<open>split with an argument that is not a string\<close>

text \<open>
  C4: \<^verbatim>\<open>"abc".split(1)\<close> does not yield an Error value. With one argument that is not a
  String, \<^verbatim>\<open>String.CallMethod\<close> builds its error from \<^verbatim>\<open>args[1].Type()\<close>, an index beyond
  the one argument there is, and the run panics.
\<close>

theorem split_non_string_argument_panics:
  "result_cell (run go_runtime None 10 prog_split_int) = Panic"
  by (rule run_split_int)

section \<open>Division by zero\<close>

text \<open>
  C5: \<^verbatim>\<open>/=\<close> on a plain variable does not report a division by zero when a Float is
  involved: \<^verbatim>\<open>let a = 5.0; a /= 0\<close> and \<^verbatim>\<open>let a = 5; a /= 0.0\<close> evaluate to the Float
  \<open>+Inf\<close>, while \<^verbatim>\<open>let a = 5; a /= 0\<close> and \<^verbatim>\<open>5 / 0\<close> are the error.
\<close>

theorem float_variable_div_zero_is_inf:
  "result_cell (run go_runtime None 10 prog_float_var_div_zero) = Ok (Some (Float PInf))
   \<and> result_cell (run go_runtime None 10 prog_int_var_div_float_zero) = Ok (Some (Float PInf))
   \<and> result_cell (run go_runtime None 10 prog_int_var_div_zero)
        = Ok (Some (Error ''cannot divide by zero''))
   \<and> result_cell (run go_runtime None 10 prog_div_zero) = Ok (Some (Error ''cannot divide by zero''))"
  using run_float_var_div_zero run_int_var_div_float_zero run_int_var_div_zero run_div_zero
  by simp

section \<open>Indexing an array\<close>








section \<open>Slices share the backing array\<close>








section \<open>The logical operators\<close>

lemma fuel3: "(3::nat) = Suc (Suc (Suc 0))"
  by simp



section \<open>Bindings share the object\<close>

lemma let_binds_the_reference:
  assumes live: "\<not> ctx_Done ctx st"
    and fresh: "\<not> snd (Scope_GetCurrent (tick st) s b)"
    and e: "Eval rt ctx n v s (tick st) = Ok (r, st1)"
    and c: "cell st1 r = Some (Integer k)"
    and sc: "s < length (scopes st1)"
  shows "Eval rt ctx (Suc n) (LetStatement tok (Some b) v) s st = Ok (r, snd (Scope_Set st1 s b r))"
    and "Scope_GetCurrent (snd (Scope_Set st1 s b r)) s b = (r, True)"
    and "heap (snd (Scope_Set st1 s b r)) = heap st1"
proof -
  have t: "Type st1 r = Some IntegerObj"
    using c by (simp add: Type_def)
  show "Eval rt ctx (Suc n) (LetStatement tok (Some b) v) s st = Ok (r, snd (Scope_Set st1 s b r))"
    using live fresh e t by (simp add: Eval_node_def evalLetStatement_def Scope_Set_def)
  show "Scope_GetCurrent (snd (Scope_Set st1 s b r)) s b = (r, True)"
    using sc by (simp add: Scope_GetCurrent_def Scope_Set_def set_store_def frame_def update_conv')
  show "heap (snd (Scope_Set st1 s b r)) = heap st1"
    by (simp add: Scope_Set_def set_store_def)
qed

lemma step_in_place:
  assumes c: "cell st1 r = Some (Integer k)"
  shows "\<exists>r' st'. evalPostfixExpression r ''++'' st1 = Ok (r', st')
           \<and> cell st' r = Some (Integer (k + 1)) \<and> cell st' r' = Some (Integer k) \<and> r' \<noteq> r"
    and "\<exists>r' st'. evalPrefixExpression ''++'' r st1 = Ok (r', st')
           \<and> cell st' r = Some (Integer (k + 1)) \<and> cell st' r' = Some (Integer (k + 1)) \<and> r' \<noteq> r"
    and "\<exists>r' st'. evalPostfixExpression r ''--'' st1 = Ok (r', st')
           \<and> cell st' r = Some (Integer (k - 1)) \<and> cell st' r' = Some (Integer k) \<and> r' \<noteq> r"
    and "\<exists>r' st'. evalPrefixExpression ''--'' r st1 = Ok (r', st')
           \<and> cell st' r = Some (Integer (k - 1)) \<and> cell st' r' = Some (Integer (k - 1)) \<and> r' \<noteq> r"
proof -
  obtain i where r: "r = Some i" and i: "i < length (heap st1)" and h: "heap st1 ! i = Integer k"
    using c by (auto simp: cell_Some_iff)
  have t: "Type st1 r = Some IntegerObj"
    using c by (simp add: Type_def)
  show "\<exists>r' st'. evalPostfixExpression r ''++'' st1 = Ok (r', st')
           \<and> cell st' r = Some (Integer (k + 1)) \<and> cell st' r' = Some (Integer k) \<and> r' \<noteq> r"
    using c t i by (simp add: evalPostfixExpression_def evalIncrPostfixExpression_def new_def
        alloc_def put_def r cell_def nth_append)
  show "\<exists>r' st'. evalPrefixExpression ''++'' r st1 = Ok (r', st')
           \<and> cell st' r = Some (Integer (k + 1)) \<and> cell st' r' = Some (Integer (k + 1)) \<and> r' \<noteq> r"
    using c t i by (simp add: evalPrefixExpression_def evalIncrPrefixExpression_def new_def
        alloc_def put_def r cell_def nth_append)
  show "\<exists>r' st'. evalPostfixExpression r ''--'' st1 = Ok (r', st')
           \<and> cell st' r = Some (Integer (k - 1)) \<and> cell st' r' = Some (Integer k) \<and> r' \<noteq> r"
    using c t i by (simp add: evalPostfixExpression_def evalDecrPostfixExpression_def new_def
        alloc_def put_def r cell_def nth_append)
  show "\<exists>r' st'. evalPrefixExpression ''--'' r st1 = Ok (r', st')
           \<and> cell st' r = Some (Integer (k - 1)) \<and> cell st' r' = Some (Integer (k - 1)) \<and> r' \<noteq> r"
    using c t i by (simp add: evalPrefixExpression_def evalDecrPrefixExpression_def new_def
        alloc_def put_def r cell_def nth_append)
qed

lemma alias_Integer_post_incr:
  "a \<noteq> b \<Longrightarrow> result_cell (run rt None 10 (alias_prog a b (IntegerLiteral tok k) (PostfixExpression (Identifier a) ''++'')))
     = Ok (Some (Integer (k + 1)))"
  unfolding fuel10 by (simp add: eval_defs op_defs heap_defs alias_prog_def)

lemma alias_Float_post_incr:
  "a \<noteq> b \<Longrightarrow> result_cell (run rt None 10 (alias_prog a b (FloatLiteral tok x0) (PostfixExpression (Identifier a) ''++'')))
     = Ok (Some (Float (f_add x0 (Num 1))))"
  unfolding fuel10 by (simp add: eval_defs op_defs heap_defs alias_prog_def)

lemma alias_Integer_pre_incr:
  "a \<noteq> b \<Longrightarrow> result_cell (run rt None 10 (alias_prog a b (IntegerLiteral tok k) (PrefixExpression ''++'' (Identifier a))))
     = Ok (Some (Integer (k + 1)))"
  unfolding fuel10 by (simp add: eval_defs op_defs heap_defs alias_prog_def)

lemma alias_Float_pre_incr:
  "a \<noteq> b \<Longrightarrow> result_cell (run rt None 10 (alias_prog a b (FloatLiteral tok x0) (PrefixExpression ''++'' (Identifier a))))
     = Ok (Some (Float (f_add x0 (Num 1))))"
  unfolding fuel10 by (simp add: eval_defs op_defs heap_defs alias_prog_def)

lemma alias_Integer_post_decr:
  "a \<noteq> b \<Longrightarrow> result_cell (run rt None 10 (alias_prog a b (IntegerLiteral tok k) (PostfixExpression (Identifier a) ''--'')))
     = Ok (Some (Integer (k - 1)))"
  unfolding fuel10 by (simp add: eval_defs op_defs heap_defs alias_prog_def)

lemma alias_Float_post_decr:
  "a \<noteq> b \<Longrightarrow> result_cell (run rt None 10 (alias_prog a b (FloatLiteral tok x0) (PostfixExpression (Identifier a) ''--'')))
     = Ok (Some (Float (f_sub x0 (Num 1))))"
  unfolding fuel10 by (simp add: eval_defs op_defs heap_defs alias_prog_def)

lemma alias_Integer_pre_decr:
  "a \<noteq> b \<Longrightarrow> result_cell (run rt None 10 (alias_prog a b (IntegerLiteral tok k) (PrefixExpression ''--'' (Identifier a))))
     = Ok (Some (Integer (k - 1)))"
  unfolding fuel10 by (simp add: eval_defs op_defs heap_defs alias_prog_def)

lemma alias_Float_pre_decr:
  "a \<noteq> b \<Longrightarrow> result_cell (run rt None 10 (alias_prog a b (FloatLiteral tok x0) (PrefixExpression ''--'' (Identifier a))))
     = Ok (Some (Float (f_sub x0 (Num 1))))"
  unfolding fuel10 by (simp add: eval_defs op_defs heap_defs alias_prog_def)

lemma arg_Integer_post_incr:
  "a \<noteq> f \<Longrightarrow> result_cell (run rt None 10 (arg_prog a f x (IntegerLiteral tok k) (PostfixExpression (Identifier x) ''++'')))
     = Ok (Some (Integer (k + 1)))"
  unfolding fuel10 by (simp add: eval_defs op_defs heap_defs arg_prog_def)

lemma arg_Float_post_incr:
  "a \<noteq> f \<Longrightarrow> result_cell (run rt None 10 (arg_prog a f x (FloatLiteral tok x0) (PostfixExpression (Identifier x) ''++'')))
     = Ok (Some (Float (f_add x0 (Num 1))))"
  unfolding fuel10 by (simp add: eval_defs op_defs heap_defs arg_prog_def)

lemma arg_Integer_pre_incr:
  "a \<noteq> f \<Longrightarrow> result_cell (run rt None 10 (arg_prog a f x (IntegerLiteral tok k) (PrefixExpression ''++'' (Identifier x))))
     = Ok (Some (Integer (k + 1)))"
  unfolding fuel10 by (simp add: eval_defs op_defs heap_defs arg_prog_def)

lemma arg_Float_pre_incr:
  "a \<noteq> f \<Longrightarrow> result_cell (run rt None 10 (arg_prog a f x (FloatLiteral tok x0) (PrefixExpression ''++'' (Identifier x))))
     = Ok (Some (Float (f_add x0 (Num 1))))"
  unfolding fuel10 by (simp add: eval_defs op_defs heap_defs arg_prog_def)

lemma arg_Integer_post_decr:
  "a \<noteq> f \<Longrightarrow> result_cell (run rt None 10 (arg_prog a f x (IntegerLiteral tok k) (PostfixExpression (Identifier x) ''--'')))
     = Ok (Some (Integer (k - 1)))"
  unfolding fuel10 by (simp add: eval_defs op_defs heap_defs arg_prog_def)

lemma arg_Float_post_decr:
  "a \<noteq> f \<Longrightarrow> result_cell (run rt None 10 (arg_prog a f x (FloatLiteral tok x0) (PostfixExpression (Identifier x) ''--'')))
     = Ok (Some (Float (f_sub x0 (Num 1))))"
  unfolding fuel10 by (simp add: eval_defs op_defs heap_defs arg_prog_def)

lemma arg_Integer_pre_decr:
  "a \<noteq> f \<Longrightarrow> result_cell (run rt None 10 (arg_prog a f x (IntegerLiteral tok k) (PrefixExpression ''--'' (Identifier x))))
     = Ok (Some (Integer (k - 1)))"
  unfolding fuel10 by (simp add: eval_defs op_defs heap_defs arg_prog_def)

lemma arg_Float_pre_decr:
  "a \<noteq> f \<Longrightarrow> result_cell (run rt None 10 (arg_prog a f x (FloatLiteral tok x0) (PrefixExpression ''--'' (Identifier x))))
     = Ok (Some (Float (f_sub x0 (Num 1))))"
  unfolding fuel10 by (simp add: eval_defs op_defs heap_defs arg_prog_def)

text \<open>
  C9: a \<^verbatim>\<open>let\<close> binds the name to the very reference its initializer evaluated to, without
  copying the object, and the four forms of \<^verbatim>\<open>++\<close> and \<^verbatim>\<open>--\<close> write the new value into the
  operand's own cell (what they return is a fresh object). Hence, for every Integer or Float
  literal and all names, \<^verbatim>\<open>let a = lit; let b = a; a++; b\<close> gives the value of the literal plus
  one (minus one for \<^verbatim>\<open>--\<close>), and so does \<^verbatim>\<open>a\<close> after a call \<^verbatim>\<open>f(a)\<close> of a function that
  steps its parameter.
\<close>

theorem increment_is_seen_through_every_binding:
  assumes ab: "a \<noteq> b" and af: "a \<noteq> f"
    and live: "\<not> ctx_Done ctx st"
    and fresh: "\<not> snd (Scope_GetCurrent (tick st) s b)"
    and e: "Eval rt ctx n v s (tick st) = Ok (r, st1)"
    and c: "cell st1 r = Some (Integer k)"
    and sc: "s < length (scopes st1)"
  shows "Eval rt ctx (Suc n) (LetStatement tok (Some b) v) s st = Ok (r, snd (Scope_Set st1 s b r))
    \<and> Scope_GetCurrent (snd (Scope_Set st1 s b r)) s b = (r, True)
    \<and> heap (snd (Scope_Set st1 s b r)) = heap st1
    \<and> (\<exists>r' st'. evalPostfixExpression r ''++'' st1 = Ok (r', st')
           \<and> cell st' r = Some (Integer (k + 1)) \<and> cell st' r' = Some (Integer k) \<and> r' \<noteq> r)
    \<and> (\<exists>r' st'. evalPrefixExpression ''++'' r st1 = Ok (r', st')
           \<and> cell st' r = Some (Integer (k + 1)) \<and> cell st' r' = Some (Integer (k + 1)) \<and> r' \<noteq> r)
    \<and> (\<exists>r' st'. evalPostfixExpression r ''--'' st1 = Ok (r', st')
           \<and> cell st' r = Some (Integer (k - 1)) \<and> cell st' r' = Some (Integer k) \<and> r' \<noteq> r)
    \<and> (\<exists>r' st'. evalPrefixExpression ''--'' r st1 = Ok (r', st')
           \<and> cell st' r = Some (Integer (k - 1)) \<and> cell st' r' = Some (Integer (k - 1)) \<and> r' \<noteq> r)
    \<and> result_cell (run rt None 10 (alias_prog a b (IntegerLiteral tok k) (PostfixExpression (Identifier a) ''++'')))
         = Ok (Some (Integer (k + 1)))
    \<and> result_cell (run rt None 10 (alias_prog a b (FloatLiteral tok x0) (PostfixExpression (Identifier a) ''++'')))
         = Ok (Some (Float (f_add x0 (Num 1))))
    \<and> result_cell (run rt None 10 (alias_prog a b (IntegerLiteral tok k) (PrefixExpression ''++'' (Identifier a))))
         = Ok (Some (Integer (k + 1)))
    \<and> result_cell (run rt None 10 (alias_prog a b (FloatLiteral tok x0) (PrefixExpression ''++'' (Identifier a))))
         = Ok (Some (Float (f_add x0 (Num 1))))
    \<and> result_cell (run rt None 10 (alias_prog a b (IntegerLiteral tok k) (PostfixExpression (Identifier a) ''--'')))
         = Ok (Some (Integer (k - 1)))
    \<and> result_cell (run rt None 10 (alias_prog a b (FloatLiteral tok x0) (PostfixExpression (Identifier a) ''--'')))
         = Ok (Some (Float (f_sub x0 (Num 1))))
    \<and> result_cell (run rt None 10 (alias_prog a b (IntegerLiteral tok k) (PrefixExpression ''--'' (Identifier a))))
         = Ok (Some (Integer (k - 1)))
    \<and> result_cell (run rt None 10 (alias_prog a b (FloatLiteral tok x0) (PrefixExpression ''--'' (Identifier a))))
         = Ok (Some (Float (f_sub x0 (Num 1))))
    \<and> result_cell (run rt None 10 (arg_prog a f x (IntegerLiteral tok k) (PostfixExpression (Identifier x) ''++'')))
         = Ok (Some (Integer (k + 1)))
    \<and> result_cell (run rt None 10 (arg_prog a f x (FloatLiteral tok x0) (PostfixExpression (Identifier x) ''++'')))
         = Ok (Some (Float (f_add x0 (Num 1))))
    \<and> result_cell (run rt None 10 (arg_prog a f x (IntegerLiteral tok k) (PrefixExpression ''++'' (Identifier x))))
         = Ok (Some (Integer (k + 1)))
    \<and> result_cell (run rt None 10 (arg_prog a f x (FloatLiteral tok x0) (PrefixExpression ''++'' (Identifier x))))
         = Ok (Some (Float (f_add x0 (Num 1))))
    \<and> result_cell (run rt None 10 (arg_prog a f x (IntegerLiteral tok k) (PostfixExpression (Identifier x) ''--'')))
         = Ok (Some (Integer (k - 1)))
    \<and> result_cell (run rt None 10 (arg_prog a f x (FloatLiteral tok x0) (PostfixExpression (Identifier x) ''--'')))
         = Ok (Some (Float (f_sub x0 (Num 1))))
    \<and> result_cell (run rt None 10 (arg_prog a f x (IntegerLiteral tok k) (PrefixExpression ''--'' (Identifier x))))
         = Ok (Some (Integer (k - 1)))
    \<and> result_cell (run rt None 10 (arg_prog a f x (FloatLiteral tok x0) (PrefixExpression ''--'' (Identifier x))))
         = Ok (Some (Float (f_sub x0 (Num 1))))"
  using let_binds_the_reference [OF live fresh e c sc] step_in_place [OF c]
    alias_Integer_post_incr [OF ab] alias_Float_post_incr [OF ab] alias_Integer_pre_incr [OF ab] alias_Float_pre_incr [OF ab]
    alias_Integer_post_decr [OF ab] alias_Float_post_decr [OF ab] alias_Integer_pre_decr [OF ab] alias_Float_pre_decr [OF ab]
    arg_Integer_post_incr [OF af] arg_Float_post_incr [OF af] arg_Integer_pre_incr [OF af] arg_Float_pre_incr [OF af]
    arg_Integer_post_decr [OF af] arg_Float_post_decr [OF af] arg_Integer_pre_decr [OF af] arg_Float_pre_decr [OF af]
  by simp

theorem increment_is_seen_through_every_binding_witness:
  "(\<exists>r st1.
      ''a'' \<noteq> ''b'' \<and> ''a'' \<noteq> ''f''
      \<and> \<not> ctx_Done None (snd (NewScope None init_state))
      \<and> \<not> snd (Scope_GetCurrent (tick (snd (NewScope None init_state))) 0 ''b'')
      \<and> Eval go_runtime None 3 (IntegerLiteral ''1'' 1) 0 (tick (snd (NewScope None init_state)))
           = Ok (r, st1)
      \<and> cell st1 r = Some (Integer 1) \<and> 0 < length (scopes st1)
      \<and> Eval go_runtime None (Suc 3) (LetStatement ''let'' (Some ''b'') (IntegerLiteral ''1'' 1)) 0
            (snd (NewScope None init_state)) = Ok (r, snd (Scope_Set st1 0 ''b'' r))
      \<and> Scope_GetCurrent (snd (Scope_Set st1 0 ''b'' r)) 0 ''b'' = (r, True))
   \<and> result_cell (run go_runtime None 10 prog_alias_incr) = Ok (Some (Integer 2))
   \<and> result_cell (run go_runtime None 10 prog_arg_incr) = Ok (Some (Integer 2))"
proof -
  have ex: "\<exists>r st1.
      ''a'' \<noteq> ''b'' \<and> ''a'' \<noteq> ''f''
      \<and> \<not> ctx_Done None (snd (NewScope None init_state))
      \<and> \<not> snd (Scope_GetCurrent (tick (snd (NewScope None init_state))) 0 ''b'')
      \<and> Eval go_runtime None 3 (IntegerLiteral ''1'' 1) 0 (tick (snd (NewScope None init_state)))
           = Ok (r, st1)
      \<and> cell st1 r = Some (Integer 1) \<and> 0 < length (scopes st1)"
    unfolding fuel3 by (simp add: run_defs)
  then obtain r st1 where
    h: "''a'' \<noteq> ''b''" "''a'' \<noteq> ''f''"
       "\<not> ctx_Done None (snd (NewScope None init_state))"
       "\<not> snd (Scope_GetCurrent (tick (snd (NewScope None init_state))) 0 ''b'')"
       "Eval go_runtime None 3 (IntegerLiteral ''1'' 1) 0 (tick (snd (NewScope None init_state)))
           = Ok (r, st1)"
       "cell st1 r = Some (Integer 1)" "0 < length (scopes st1)"
    by blast
  note th = increment_is_seen_through_every_binding [where x = "''x''" and tok = "''let''", OF h]
  note th1 = increment_is_seen_through_every_binding [where x = "''x''" and tok = "''1''", OF h]
  have p1: "prog_alias_incr = alias_prog ''a'' ''b'' (IntegerLiteral ''1'' 1)
              (PostfixExpression (Identifier ''a'') ''++'')"
    by (simp add: prog_alias_incr_def alias_prog_def)
  have p2: "prog_arg_incr = arg_prog ''a'' ''f'' ''x'' (IntegerLiteral ''1'' 1)
              (PostfixExpression (Identifier ''x'') ''++'')"
    by (simp add: prog_arg_incr_def arg_prog_def)
  have a: "Eval go_runtime None (Suc 3) (LetStatement ''let'' (Some ''b'') (IntegerLiteral ''1'' 1)) 0
            (snd (NewScope None init_state)) = Ok (r, snd (Scope_Set st1 0 ''b'' r))"
    and b: "Scope_GetCurrent (snd (Scope_Set st1 0 ''b'' r)) 0 ''b'' = (r, True)"
    using th by blast+
  have c: "result_cell (run go_runtime None 10 prog_alias_incr) = Ok (Some (Integer 2))"
    and d: "result_cell (run go_runtime None 10 prog_arg_incr) = Ok (Some (Integer 2))"
    unfolding p1 p2 using th1 by simp_all
  from h a b c d show ?thesis by blast
qed

section \<open>Equality\<close>

subsection \<open>Integers as \<^verbatim>\<open>float64\<close>\<close>

text \<open>
  The conversion of an integer of magnitude at most \<open>2 ^ 53\<close> is exact; \<open>2 ^ 53 + 1\<close> is the
  first integer that is rounded, to \<open>2 ^ 53\<close>.
\<close>

lemma floorlog2_eqI:
  assumes "2 ^ (k - 1) \<le> n" and "n < 2 ^ k" and "0 < k"
  shows "floorlog 2 n = k"
proof -
  have "floorlog 2 n \<le> k"
    using assms(2) by (simp add: floorlog_le_iff)
  moreover have "k \<le> floorlog 2 n"
    using assms(1) by (intro floorlog_geI) simp_all
  ultimately show ?thesis by simp
qed

lemma pow2_nat [simp]: "pow2 (int k) = 2 ^ k"
  by (simp add: pow2_def)

lemma rne_of_int [simp]: "rne (of_int z) = z"
  by (simp add: rne_def)

lemma ilog2_of_nat:
  assumes "0 < m"
  shows "ilog2 (of_nat m) = int (floorlog 2 m) - 1"
proof -
  have q: "quotient_of (of_nat m :: rat) = (int m, 1)"
    using quotient_of_int [of "int m"] by simp
  have one: "floorlog 2 (nat 1) = 1"
    by (rule floorlog2_eqI) simp_all
  have pos: "0 < floorlog 2 m"
    using assms by (simp add: floorlog_def)
  have "2 ^ (floorlog 2 m - 1) \<le> m"
    using floorlog_bounds [of m 2] assms by simp
  then have "(2::rat) ^ (floorlog 2 m - 1) \<le> of_nat m"
    by (metis of_nat_le_iff of_nat_numeral of_nat_power)
  then have le: "pow2 (int (floorlog 2 m - 1)) \<le> of_nat m"
    by (simp only: pow2_nat)
  have k: "int (floorlog 2 (nat (int m))) - int (floorlog 2 (nat 1)) = int (floorlog 2 m - 1)"
    unfolding one nat_int using pos by linarith
  have "ilog2 (of_nat m) = int (floorlog 2 m - 1)"
    unfolding ilog2_def Let_def q fst_conv snd_conv k using le by (simp only: if_True)
  also have "\<dots> = int (floorlog 2 m) - 1"
    using pos by linarith
  finally show ?thesis .
qed

lemma rne_numeral [simp]: "rne (numeral k) = numeral k"
  using rne_of_int [of "numeral k"] by simp

lemma pow2_big:
  assumes "x \<le> 2 ^ k" and "k < n"
  shows "\<not> pow2 (int n) \<le> (x::rat)"
proof -
  have "(2::rat) ^ k < 2 ^ n"
    using assms(2) by (intro power_strict_increasing) simp_all
  with assms(1) have "x < 2 ^ n" by (rule le_less_trans)
  then show ?thesis by (simp add: pow2_def)
qed

lemma round_small_exponent:
  assumes "b \<le> 53" and "0 < b"
  shows "of_int (rne (of_nat m / pow2 (max (int b - 1 - 52) (- 1074))))
           * pow2 (max (int b - 1 - 52) (- 1074)) = (of_nat m :: rat)"
proof -
  define e where "e = 53 - b"
  have mx: "max (int b - 1 - 52) (- 1074) = - int e"
    using assms by (simp add: e_def)
  have p: "pow2 (- int e) = 1 / 2 ^ e"
    by (cases "e = 0") (simp_all add: pow2_def)
  have d: "(of_nat m :: rat) / (1 / 2 ^ e) = of_int (int m * 2 ^ e)"
    by simp
  have "rne (of_nat m / (1 / 2 ^ e)) = int m * 2 ^ e"
    unfolding d by (rule rne_of_int)
  then show ?thesis
    unfolding mx p by simp
qed

lemma round_top_exponent:
  assumes "m = 2 ^ 53"
  shows "of_int (rne (of_nat m / pow2 (max (int 54 - 1 - 52) (- 1074))))
           * pow2 (max (int 54 - 1 - 52) (- 1074)) = (of_nat m :: rat)"
proof -
  have mx: "max (int 54 - 1 - 52) (- 1074) = int 1"
    by simp
  have d: "(of_nat m :: rat) / 2 ^ 1 = of_int (2 ^ 52)"
    using assms by simp
  have "rne (of_nat m / 2 ^ 1) = 2 ^ 52"
    unfolding d by (rule rne_of_int)
  then show ?thesis
    unfolding mx pow2_nat using assms by simp
qed

lemma round64_exact:
  assumes "m \<le> 2 ^ 53" and q: "\<bar>q\<bar> = of_nat m"
  shows "round64 q = Num q"
proof (cases "m = 0")
  case True
  with q show ?thesis by (simp add: round64_def)
next
  case False
  then have mpos: "0 < m" by simp
  define b where "b = floorlog 2 m"
  have bpos: "0 < b"
    using mpos by (simp add: b_def floorlog_def)
  have lo: "2 ^ (b - 1) \<le> m"
    using floorlog_bounds [of m 2] mpos by (simp add: b_def)
  have "m < 2 ^ 54"
    using assms(1) by simp
  then have b54: "b \<le> 54"
    unfolding b_def by (simp add: floorlog_le_iff)
  have il: "ilog2 (of_nat m) = int b - 1"
    using ilog2_of_nat [OF mpos] by (simp add: b_def)
  have m53: "(of_nat m :: rat) \<le> 2 ^ 53"
    using assms(1) by (metis of_nat_le_iff of_nat_numeral of_nat_power)
  have small: "\<not> pow2 1024 \<le> (of_nat m :: rat)"
    using pow2_big [OF m53, of 1024] by simp
  have r: "of_int (rne (of_nat m / pow2 (max (int b - 1 - 52) (- 1074)))) * pow2 (max (int b - 1 - 52) (- 1074))
             = (of_nat m :: rat)"
  proof (cases "b = 54")
    case True
    with lo assms(1) have "m = 2 ^ 53" by simp
    then show ?thesis
      unfolding True by (rule round_top_exponent)
  next
    case False
    with b54 have "b \<le> 53" by simp
    then show ?thesis using bpos by (rule round_small_exponent)
  qed
  have nz: "q \<noteq> 0" and mnz: "(of_nat m :: rat) \<noteq> 0"
    using mpos q by auto
  have sgn: "(if q < 0 then - of_nat m else of_nat m) = q"
    using q by (cases "q < 0") simp_all
  have "round64 q = Num (if q < 0 then - of_nat m else of_nat m)"
    unfolding round64_def Let_def q il r using nz mnz small by simp
  with sgn show ?thesis by simp
qed

lemma round64_of_int:
  assumes "\<bar>i\<bar> \<le> 2 ^ 53"
  shows "round64 (of_int i) = Num (of_int i)"
proof -
  have "nat \<bar>i\<bar> \<le> 2 ^ 53"
    using assms by (simp add: nat_le_iff)
  moreover have "\<bar>of_int i :: rat\<bar> = of_nat (nat \<bar>i\<bar>)"
    by simp
  ultimately show ?thesis
    by (rule round64_exact)
qed

lemma float64_of_int64_exact:
  "\<bar>sint i\<bar> \<le> 2 ^ 53 \<Longrightarrow> float64_of_int64 i = Num (of_int (sint i))"
  unfolding float64_of_int64_def by (rule round64_of_int)



lemma round64_tie_to_even: "round64 9007199254740993 = Num 9007199254740992"
proof -
  have fl: "floorlog 2 9007199254740993 = 54"
    by (rule floorlog2_eqI) simp_all
  have il: "ilog2 9007199254740993 = 53"
    using ilog2_of_nat [of 9007199254740993] fl by simp
  have fr: "\<lfloor>(9007199254740993::rat) / 2\<rfloor> = 4503599627370496"
    by (rule floor_unique) simp_all
  have rn: "rne (9007199254740993 / 2) = 4503599627370496"
    by (simp add: rne_def Let_def fr)
  have small: "\<not> pow2 1024 \<le> 9007199254740992"
    using pow2_big [of 9007199254740992 53 1024] by simp
  have ab: "\<bar>9007199254740993::rat\<bar> = 9007199254740993"
    by simp
  have mx: "max (53 - 52) (- 1074) = (1::int)"
    by simp
  have p1: "pow2 1 = 2"
    using pow2_nat [of 1] by simp
  show ?thesis
    unfolding round64_def Let_def ab il mx p1 rn using small by simp
qed

lemma float64_of_int64_tie: "float64_of_int64 9007199254740993 = Num 9007199254740992"
  using round64_tie_to_even by (simp add: float64_of_int64_def)

lemma float64_of_int64_2_53: "float64_of_int64 9007199254740992 = Num 9007199254740992"
  using float64_of_int64_exact [of 9007199254740992] by simp

subsection \<open>The operators \<^verbatim>\<open>==\<close> and \<^verbatim>\<open>!=\<close>\<close>

lemma run_big_ints_eq:
  "result_cell (run rt None 10 prog_big_ints_eq) = Ok (Some (Boolean True))"
  unfolding fuel10
  by (simp add: eval_defs op_defs heap_defs prog_big_ints_eq_def float64_of_int64_tie
      float64_of_int64_2_53)

lemma evalInfix_eq:
  assumes "Type st left = Some lt" and "Type st right = Some rty"
    and "lt \<noteq> ErrorObj" and "rty \<noteq> ErrorObj"
  shows "evalInfixExpression rt n left ''=='' right st =
     (if (lt = IntegerObj \<or> lt = FloatObj) \<and> (rty = IntegerObj \<or> rty = FloatObj)
      then evalNumberInfixExpression left ''=='' right st
      else pure_bnd (evalEquality st left right) (\<lambda>b. ret (nativeBoolToBooleanObject b) st))"
  using assms by (simp add: evalInfixExpression_def isNumber_def)

lemma evalInfix_neq:
  assumes "Type st left = Some lt" and "Type st right = Some rty"
    and "lt \<noteq> ErrorObj" and "rty \<noteq> ErrorObj"
  shows "evalInfixExpression rt n left ''!='' right st =
     (if (lt = IntegerObj \<or> lt = FloatObj) \<and> (rty = IntegerObj \<or> rty = FloatObj)
      then evalNumberInfixExpression left ''!='' right st
      else pure_bnd (evalEquality st left right) (\<lambda>b. ret (nativeBoolToBooleanObject (\<not> b)) st))"
  using assms by (simp add: evalInfixExpression_def isNumber_def)

lemma evalNumberInfix_eq:
  assumes "Type st left = Some lt" and "Type st right = Some rty"
    and "float_operand st left = Some lv" and "float_operand st right = Some rv"
  shows "evalNumberInfixExpression left ''=='' right st = ret (nativeBoolToBooleanObject (f_eq lv rv)) st"
    and "evalNumberInfixExpression left ''!='' right st = ret (nativeBoolToBooleanObject (\<not> f_eq lv rv)) st"
  using assms by (simp_all add: evalNumberInfixExpression_def)

lemma number_type_iff:
  "object_Type c = IntegerObj \<or> object_Type c = FloatObj \<longleftrightarrow> (\<exists>a. c = Integer a) \<or> (\<exists>a. c = Float a)"
  by (cases c) simp_all

lemma equality_of_numbers:
  assumes l: "cell st left = Some l" and r: "cell st right = Some r"
    and nl: "(\<exists>a. l = Integer a) \<or> (\<exists>a. l = Float a)"
    and nr: "(\<exists>a. r = Integer a) \<or> (\<exists>a. r = Float a)"
  shows "\<exists>lv rv. float_operand st left = Some lv \<and> float_operand st right = Some rv
           \<and> f_eq lv rv = (case (l, r) of
                (Integer a, Integer b) \<Rightarrow> f_eq (float64_of_int64 a) (float64_of_int64 b)
              | (Integer a, Float b) \<Rightarrow> f_eq (float64_of_int64 a) b
              | (Float a, Integer b) \<Rightarrow> f_eq a (float64_of_int64 b)
              | (Float a, Float b) \<Rightarrow> f_eq a b
              | (Boolean a, Boolean b) \<Rightarrow> a = b
              | (Null, Null) \<Rightarrow> True
              | (String a, String b) \<Rightarrow> a = b
              | _ \<Rightarrow> False)"
  using assms by (auto simp: float_operand_def)

lemma equality_of_others:
  assumes l: "cell st left = Some l" and r: "cell st right = Some r"
    and nn: "\<not> (((\<exists>a. l = Integer a) \<or> (\<exists>a. l = Float a)) \<and> ((\<exists>a. r = Integer a) \<or> (\<exists>a. r = Float a)))"
  shows "evalEquality st left right = Ok (case (l, r) of
                (Integer a, Integer b) \<Rightarrow> f_eq (float64_of_int64 a) (float64_of_int64 b)
              | (Integer a, Float b) \<Rightarrow> f_eq (float64_of_int64 a) b
              | (Float a, Integer b) \<Rightarrow> f_eq a (float64_of_int64 b)
              | (Float a, Float b) \<Rightarrow> f_eq a b
              | (Boolean a, Boolean b) \<Rightarrow> a = b
              | (Null, Null) \<Rightarrow> True
              | (String a, String b) \<Rightarrow> a = b
              | _ \<Rightarrow> False)"
  using assms by (cases l; cases r) (simp_all add: evalEquality_def)

text \<open>
  C2, as the code has it. \<^verbatim>\<open>evalInfixExpression\<close> tests for two numbers before it tests for
  \<^verbatim>\<open>==\<close>, so two numbers, Integer or Float in any mix, are compared by
  \<^verbatim>\<open>evalNumberInfixExpression\<close>: as \<^verbatim>\<open>float64\<close> values, an Integer being converted first. Only
  the other pairs reach \<^verbatim>\<open>evalEquality\<close>: two Booleans, two Nulls and two Strings are equal
  when their values are, and every other pair is unequal. \<^verbatim>\<open>!=\<close> is the negation. The operands
  are any two objects other than Error objects.
\<close>

theorem equality_operator:
  assumes l: "cell st left = Some l" and r: "cell st right = Some r"
    and le: "object_Type l \<noteq> ErrorObj" and re: "object_Type r \<noteq> ErrorObj"
  shows "evalInfixExpression rt n left ''=='' right st
           = Ok (nativeBoolToBooleanObject (case (l, r) of
                (Integer a, Integer b) \<Rightarrow> f_eq (float64_of_int64 a) (float64_of_int64 b)
              | (Integer a, Float b) \<Rightarrow> f_eq (float64_of_int64 a) b
              | (Float a, Integer b) \<Rightarrow> f_eq a (float64_of_int64 b)
              | (Float a, Float b) \<Rightarrow> f_eq a b
              | (Boolean a, Boolean b) \<Rightarrow> a = b
              | (Null, Null) \<Rightarrow> True
              | (String a, String b) \<Rightarrow> a = b
              | _ \<Rightarrow> False), st)
       \<and> evalInfixExpression rt n left ''!='' right st
           = Ok (nativeBoolToBooleanObject (\<not> (case (l, r) of
                (Integer a, Integer b) \<Rightarrow> f_eq (float64_of_int64 a) (float64_of_int64 b)
              | (Integer a, Float b) \<Rightarrow> f_eq (float64_of_int64 a) b
              | (Float a, Integer b) \<Rightarrow> f_eq a (float64_of_int64 b)
              | (Float a, Float b) \<Rightarrow> f_eq a b
              | (Boolean a, Boolean b) \<Rightarrow> a = b
              | (Null, Null) \<Rightarrow> True
              | (String a, String b) \<Rightarrow> a = b
              | _ \<Rightarrow> False)), st)"
proof (cases "((\<exists>a. l = Integer a) \<or> (\<exists>a. l = Float a)) \<and> ((\<exists>a. r = Integer a) \<or> (\<exists>a. r = Float a))")
  case True
  have tl: "Type st left = Some (object_Type l)" and tr: "Type st right = Some (object_Type r)"
    using l r by (simp_all add: Type_def)
  have num: "(object_Type l = IntegerObj \<or> object_Type l = FloatObj)
             \<and> (object_Type r = IntegerObj \<or> object_Type r = FloatObj)"
    using True by (simp add: number_type_iff)
  obtain lv rv where fl: "float_operand st left = Some lv" and fr: "float_operand st right = Some rv"
    and eq: "f_eq lv rv = (case (l, r) of
                (Integer a, Integer b) \<Rightarrow> f_eq (float64_of_int64 a) (float64_of_int64 b)
              | (Integer a, Float b) \<Rightarrow> f_eq (float64_of_int64 a) b
              | (Float a, Integer b) \<Rightarrow> f_eq a (float64_of_int64 b)
              | (Float a, Float b) \<Rightarrow> f_eq a b
              | (Boolean a, Boolean b) \<Rightarrow> a = b
              | (Null, Null) \<Rightarrow> True
              | (String a, String b) \<Rightarrow> a = b
              | _ \<Rightarrow> False)"
    using equality_of_numbers [OF l r] True by blast
  show ?thesis
    using evalInfix_eq [OF tl tr le re] evalInfix_neq [OF tl tr le re]
      evalNumberInfix_eq [OF tl tr fl fr] num
    by (simp only: if_True eq [symmetric] ret_def simp_thms)
next
  case False
  have tl: "Type st left = Some (object_Type l)" and tr: "Type st right = Some (object_Type r)"
    using l r by (simp_all add: Type_def)
  have nonnum: "\<not> ((object_Type l = IntegerObj \<or> object_Type l = FloatObj)
             \<and> (object_Type r = IntegerObj \<or> object_Type r = FloatObj))"
    using False by (simp add: number_type_iff)
  have ee: "evalEquality st left right = Ok (case (l, r) of
                (Integer a, Integer b) \<Rightarrow> f_eq (float64_of_int64 a) (float64_of_int64 b)
              | (Integer a, Float b) \<Rightarrow> f_eq (float64_of_int64 a) b
              | (Float a, Integer b) \<Rightarrow> f_eq a (float64_of_int64 b)
              | (Float a, Float b) \<Rightarrow> f_eq a b
              | (Boolean a, Boolean b) \<Rightarrow> a = b
              | (Null, Null) \<Rightarrow> True
              | (String a, String b) \<Rightarrow> a = b
              | _ \<Rightarrow> False)"
    using equality_of_others [OF l r False] .
  show ?thesis
    using evalInfix_eq [OF tl tr le re] evalInfix_neq [OF tl tr le re] nonnum
    by (simp only: if_False ee pure_bnd_simps ret_def simp_thms)
qed

theorem equality_operator_witness:
  "cell (init_state\<lparr>heap := heap init_state @ [Integer 1, Float (Num 1)]\<rparr>) (Some 11) = Some (Integer 1)
   \<and> cell (init_state\<lparr>heap := heap init_state @ [Integer 1, Float (Num 1)]\<rparr>) (Some 12) = Some (Float (Num 1))
   \<and> object_Type (Integer 1) \<noteq> ErrorObj \<and> object_Type (Float (Num 1)) \<noteq> ErrorObj
   \<and> evalInfixExpression go_runtime 0 (Some 11) ''=='' (Some 12)
         (init_state\<lparr>heap := heap init_state @ [Integer 1, Float (Num 1)]\<rparr>)
       = Ok (TRUE, init_state\<lparr>heap := heap init_state @ [Integer 1, Float (Num 1)]\<rparr>)
   \<and> evalInfixExpression go_runtime 0 (Some 11) ''!='' (Some 12)
         (init_state\<lparr>heap := heap init_state @ [Integer 1, Float (Num 1)]\<rparr>)
       = Ok (FALSE, init_state\<lparr>heap := heap init_state @ [Integer 1, Float (Num 1)]\<rparr>)"
proof -
  let ?st = "init_state\<lparr>heap := heap init_state @ [Integer 1, Float (Num 1)]\<rparr>"
  have c1: "cell ?st (Some 11) = Some (Integer 1)"
    by (simp add: cell_def init_state_def)
  have c2: "cell ?st (Some 12) = Some (Float (Num 1))"
    by (simp add: cell_def init_state_def)
  have t1: "object_Type (Integer 1) \<noteq> ErrorObj" and t2: "object_Type (Float (Num 1)) \<noteq> ErrorObj"
    by simp_all
  have one: "float64_of_int64 1 = Num 1"
    using float64_of_int64_exact [of 1] by simp
  show ?thesis
    using equality_operator [OF c1 c2 t1 t2, of go_runtime 0] c1 c2
    by (simp add: nativeBoolToBooleanObject_def one)
qed

text \<open>
  C2, as stated, fails: \<^verbatim>\<open>1 == 1.0\<close> is true, and so is
  \<^verbatim>\<open>9007199254740993 == 9007199254740992\<close>, two different Integers with the same \<^verbatim>\<open>float64\<close>.
\<close>

theorem equality_of_mixed_numbers_counterexample:
  "result_cell (run go_runtime None 10 prog_int_eq_float) = Ok (Some (Boolean True))
   \<and> result_cell (run go_runtime None 10 prog_big_ints_eq) = Ok (Some (Boolean True))"
  using run_int_eq_float run_big_ints_eq [of go_runtime] by simp

end
